theory Spec2Isabelle
  imports Main "HOL-Library.Word"
begin

section \<open>Go values shared by every package\<close>

text \<open>
  A Go \<open>error\<close> is a value carrying a message. Each place of the sources that builds an
  error (\<open>errors.New\<close>, \<open>fmt.Errorf\<close>) is one constructor below, carrying the
  arguments its format string prints. \<open>Other\<close> is an error made by a collaborator
  that is not part of the sources (the worker pool, the cron parser, the YAML decoder,
  the file system). \<open>NilPointerDereference\<close> is the Go runtime error.
\<close>

datatype error =
    EmptyJobRequest
  | JobNameMissing
  | MetadataMissing
  | JobKindNotSupported string
  | ScheduleDelayMissing
  | CronSpecMissing
  | CronSpecInvalid string
  | JobUnknown string
  | NilRequest
  | HeaderMissing string
  | Unauthorized
  | ProtocolInvalid string
  | PortInvalid
  | CertificateNotConfigured string
  | CertificateInvalid string
  | NoWorkerPool
  | BackendNotSupported string
  | RedisPoolMissing string
  | RedisURLEmpty
  | RedisURLInvalid
  | RedisURLUnparsable string
  | RedisNamespaceMissing
  | LoggerConfigMissing
  | LoggerPathInvalid string
  | LoggerLevelInvalid string
  | ArchivePeriodInvalid
  | LoggerInitFailed
  | InjectOpCommandFailed
  | InjectCheckInFailed
  | NilCheckInFunction
  | DuplicateJobRegister string
  | NilPointerDereference
  | Other string

text \<open>A call either returns a value or panics with a value.\<close>

datatype 'a go = Panics error | Returns 'a

section \<open>Functions of the Go standard library\<close>

text \<open>
  \<open>strings.HasPrefix\<close>, \<open>strings.Contains\<close> and \<open>strings.TrimSpace\<close> on strings
  of bytes.
\<close>

definition HasPrefix :: "string \<Rightarrow> string \<Rightarrow> bool" where
  "HasPrefix s pre = (take (length pre) s = pre)"

fun Contains :: "string \<Rightarrow> string \<Rightarrow> bool" where
  "Contains [] substr = (substr = [])"
| "Contains (c # s) substr = (HasPrefix (c # s) substr \<or> Contains s substr)"

text \<open>
  \<open>TrimSpace\<close> removes the white space of Unicode from both ends of a string, which
  holds its text in UTF-8. A character of white space is one of six ASCII bytes
  (\<open>isSpace\<close>), or takes two bytes (\<open>isSpace2\<close>: U+0085 and U+00A0) or three
  (\<open>isSpace3\<close>: U+1680, U+2000 to U+200A, U+2028, U+2029, U+202F, U+205F and
  U+3000). From the left the bytes are decoded forwards; from the right the last
  character is the one whose encoding ends the string, so the bytes are matched in
  reverse. Bytes that are no encoding of a character of white space stop the trimming.
\<close>

definition isSpace :: "char \<Rightarrow> bool" where
  "isSpace c = (c \<in> set [CHR '' '', CHR 0x09, CHR 0x0A, CHR 0x0B, CHR 0x0C, CHR 0x0D])"

definition isSpace2 :: "char \<Rightarrow> char \<Rightarrow> bool" where
  "isSpace2 a b = (a = CHR 0xC2 \<and> b \<in> set [CHR 0x85, CHR 0xA0])"

definition isSpace3 :: "char \<Rightarrow> char \<Rightarrow> char \<Rightarrow> bool" where
  "isSpace3 a b c =
     (a = CHR 0xE1 \<and> b = CHR 0x9A \<and> c = CHR 0x80
      \<or> a = CHR 0xE2 \<and> b = CHR 0x80
          \<and> c \<in> set [CHR 0x80, CHR 0x81, CHR 0x82, CHR 0x83, CHR 0x84, CHR 0x85, CHR 0x86,
                       CHR 0x87, CHR 0x88, CHR 0x89, CHR 0x8A, CHR 0xA8, CHR 0xA9, CHR 0xAF]
      \<or> a = CHR 0xE2 \<and> b = CHR 0x81 \<and> c = CHR 0x9F
      \<or> a = CHR 0xE3 \<and> b = CHR 0x80 \<and> c = CHR 0x80)"

fun trimLeftSpace :: "string \<Rightarrow> string" where
  "trimLeftSpace (a # b # c # s) =
     (if isSpace a then trimLeftSpace (b # c # s)
      else if isSpace2 a b then trimLeftSpace (c # s)
      else if isSpace3 a b c then trimLeftSpace s
      else a # b # c # s)"
| "trimLeftSpace [a, b] =
     (if isSpace a then trimLeftSpace [b] else if isSpace2 a b then [] else [a, b])"
| "trimLeftSpace [a] = (if isSpace a then [] else [a])"
| "trimLeftSpace [] = []"

text \<open>The same on the reversed string: \<open>c\<close> is the last byte, \<open>b\<close> the one before.\<close>

fun trimRightSpace_rev :: "string \<Rightarrow> string" where
  "trimRightSpace_rev (c # b # a # s) =
     (if isSpace c then trimRightSpace_rev (b # a # s)
      else if isSpace2 b c then trimRightSpace_rev (a # s)
      else if isSpace3 a b c then trimRightSpace_rev s
      else c # b # a # s)"
| "trimRightSpace_rev [c, b] =
     (if isSpace c then trimRightSpace_rev [b] else if isSpace2 b c then [] else [c, b])"
| "trimRightSpace_rev [c] = (if isSpace c then [] else [c])"
| "trimRightSpace_rev [] = []"

definition TrimSpace :: "string \<Rightarrow> string" where
  "TrimSpace s = rev (trimRightSpace_rev (rev (trimLeftSpace s)))"

section \<open>Package runtime: the job registry\<close>

text \<open>
  \<open>registerJobs\<close> is a process-wide \<open>map[string]interface{}\<close>. \<open>Register\<close> takes
  the map and returns the updated one, or panics and leaves the map as it was.
\<close>

definition Register :: "string \<Rightarrow> 'j \<Rightarrow> (string \<rightharpoonup> 'j) \<Rightarrow> (string \<rightharpoonup> 'j) go" where
  "Register jobName jobFunc registerJobs =
     (case registerJobs jobName of
        None \<Rightarrow> Returns (registerJobs(jobName \<mapsto> jobFunc))
      | Some _ \<Rightarrow> Panics (DuplicateJobRegister jobName))"

section \<open>Package impl: the job execution context\<close>

text \<open>
  \<open>job.CheckOPCmdFunc\<close> is \<open>func() (string, bool)\<close> and \<open>job.CheckInFunc\<close> is
  \<open>func(string)\<close>; both are closures of the worker pool over its backend, whose state
  is \<open>'s\<close>. A field of function type is \<open>None\<close> when it is nil.
\<close>

type_synonym 's CheckOPCmdFunc = "'s \<Rightarrow> string \<times> bool"
type_synonym 's CheckInFunc = "string \<Rightarrow> 's \<Rightarrow> 's"

datatype logger = Logger string string

text \<open>
  A value held in an \<open>interface{}\<close>: the nil interface, a value of one of the two named
  function types (itself possibly nil), a function of any other type, or a value that is
  no function at all.
\<close>

datatype 's iface =
    NilInterface
  | OPCmdFuncValue "'s CheckOPCmdFunc option"
  | CheckInFuncValue "'s CheckInFunc option"
  | OtherFuncValue
  | NonFuncValue string

record ('x, 's) Context =
  sysContext :: 'x
  logger :: "logger option"
  opCommandFunc :: "'s CheckOPCmdFunc option"
  checkInFunc :: "'s CheckInFunc option"
  properties :: "string \<rightharpoonup> 's iface"

definition NewContext :: "'x \<Rightarrow> ('x, 's) Context" where
  "NewContext sysCtx =
     \<lparr>sysContext = sysCtx, logger = None, opCommandFunc = None, checkInFunc = None,
      properties = Map.empty\<rparr>"

text \<open>Calling a value of function type: a nil function panics.\<close>

definition call_CheckOPCmdFunc :: "'s CheckOPCmdFunc option \<Rightarrow> 's \<Rightarrow> (string \<times> bool) go" where
  "call_CheckOPCmdFunc f s =
     (case f of None \<Rightarrow> Panics NilPointerDereference | Some g \<Rightarrow> Returns (g s))"

definition call_CheckInFunc :: "'s CheckInFunc option \<Rightarrow> string \<Rightarrow> 's \<Rightarrow> 's go" where
  "call_CheckInFunc f status s =
     (case f of None \<Rightarrow> Panics NilPointerDereference | Some g \<Rightarrow> Returns (g status s))"

text \<open>\<open>Checkin\<close> returns its error and the backend state after the call.\<close>

definition Checkin :: "('x, 's) Context \<Rightarrow> string \<Rightarrow> 's \<Rightarrow> (error option \<times> 's) go" where
  "Checkin c status s =
     (if checkInFunc c \<noteq> None then
        (case call_CheckInFunc (checkInFunc c) status s of
           Panics e \<Rightarrow> Panics e
         | Returns s' \<Rightarrow> Returns (None, s'))
      else Returns (Some NilCheckInFunction, s))"

definition OPCommand :: "('x, 's) Context \<Rightarrow> 's \<Rightarrow> (string \<times> bool) go" where
  "OPCommand c s =
     (if opCommandFunc c \<noteq> None then call_CheckOPCmdFunc (opCommandFunc c) s
      else Returns ('''', False))"

section \<open>Package config: the configuration record\<close>

text \<open>
  The fields of \<open>Configuration\<close> that are pointers to structs are options: \<open>None\<close>
  is nil. \<open>uint\<close> is a word of 64 bits.
\<close>

record HTTPSConfig =
  Cert :: string
  Key :: string

record RedisPoolConfig =
  RedisURL :: string
  Namespace :: string

record PoolConfig =
  WorkerCount :: "64 word"
  Backend :: string
  RedisPoolCfg :: "RedisPoolConfig option"

record LoggerConfig =
  BasePath :: string
  LogLevel :: string
  ArchivePeriod :: "64 word"

record Configuration =
  Protocol :: string
  Port :: "64 word"
  HTTPSConfig :: "HTTPSConfig option"
  PoolConfig :: "PoolConfig option"
  LoggerConfig :: "LoggerConfig option"

text \<open>
  What the decoder of \<open>gopkg.in/yaml.v2\<close> finds in a document, field by field along
  the \<open>yaml\<close> tags of the structs: a scalar key is absent or carries a value; a key
  of a pointer field is absent, null or a mapping.
\<close>

datatype 'a yaml_ptr = YAbsent | YNull | YMapping 'a

record yaml_https_config =
  y_cert :: "string option"
  y_key :: "string option"

record yaml_redis_pool =
  y_redis_url :: "string option"
  y_namespace :: "string option"

record yaml_worker_pool =
  y_workers :: "64 word option"
  y_backend :: "string option"
  y_redis_pool :: "yaml_redis_pool yaml_ptr"

record yaml_logger =
  y_path :: "string option"
  y_level :: "string option"
  y_archive_period :: "64 word option"

record yaml_doc =
  y_protocol :: "string option"
  y_port :: "64 word option"
  y_https_config :: "yaml_https_config yaml_ptr"
  y_worker_pool :: "yaml_worker_pool yaml_ptr"
  y_logger :: "yaml_logger yaml_ptr"

section \<open>Collaborators outside the sources\<close>

text \<open>
  The helpers of package \<open>utils\<close>, the Go standard library and the third-party parsers
  are not among the sources. The functions below take them as the fields of a
  \<open>world\<close>: every theorem holds for whatever these functions compute.
  \<open>url_Parse\<close> and \<open>cron_Parse\<close> give the message of the error, \<open>None\<close> when
  the parse succeeds; \<open>jlogger_New\<close> gives \<open>None\<close> for a nil logger;
  \<open>ReadFile\<close> gives the message of its error or the bytes of the file;
  \<open>yaml_Decode\<close> gives the message of the decoder's error, if any, and what it
  decoded.
\<close>

record world =
  IsEmptyStr :: "string \<Rightarrow> bool"
  ReadEnv :: "string \<Rightarrow> string"
  FileExists :: "string \<Rightarrow> bool"
  DirExists :: "string \<Rightarrow> bool"
  IsValidPort :: "64 word \<Rightarrow> bool"
  TranslateRedisAddress :: "string \<Rightarrow> string \<times> bool"
  url_Parse :: "string \<Rightarrow> string option"
  strconv_Atoi :: "string \<Rightarrow> int option"
  cron_Parse :: "string \<Rightarrow> string option"
  jlogger_New :: "string \<Rightarrow> string \<Rightarrow> logger option"
  ReadFile :: "string \<Rightarrow> string + string"
  yaml_Decode :: "string \<Rightarrow> string option \<times> yaml_doc"

section \<open>Package core: the controller\<close>

text \<open>
  Modelled from the spec: the constants of package \<open>job\<close> naming the three job kinds,
  which are not among the sources. The spec and the request body of the README give
  the strings.
\<close>

definition JobKindGeneric :: string where "JobKindGeneric = ''Generic''"
definition JobKindScheduled :: string where "JobKindScheduled = ''Scheduled''"
definition JobKindPeriodic :: string where "JobKindPeriodic = ''Periodic''"

definition hookActivated :: string where "hookActivated = ''activated''"
definition hookDeactivated :: string where "hookDeactivated = ''error''"

text \<open>
  Modelled from the spec: \<open>models.JobRequest\<close>, whose declaration is not among the
  sources, with the fields the controller reads and the spec lists. \<open>Job\<close> and
  \<open>Metadata\<close> are compared with nil in the sources: they are pointers, and
  \<open>None\<close> is nil. The delay is a count of seconds, taken as unsigned: a word of 64
  bits. The parameters are a \<open>map[string]interface{}\<close> the controller only passes
  on: the type \<open>'p\<close>.
\<close>

record JobMetadata =
  JobKind :: string
  ScheduleDelay :: "64 word"
  Cron :: string
  IsUnique :: bool

record 'p JobData =
  Name :: string
  Parameters :: 'p
  Metadata :: "JobMetadata option"
  StatusHook :: string

record 'p JobRequest =
  Job :: "'p JobData option"

text \<open>
  Modelled from the spec: \<open>models.JobStats\<close>, whose declaration is not among the
  sources. The controller reads \<open>Stats.JobID\<close> and writes \<open>Stats.HookStatus\<close>; the
  other fields are those the spec lists for the returned statistics. \<open>Stats\<close> is
  taken as a struct that is always there, as the spec's flat record is.
\<close>

record JobStatData =
  JobID :: string
  Status :: string
  JobName :: string
  StatKind :: string
  Unique :: bool
  RefLink :: string
  CronSpec :: string
  EnqueueTime :: int
  UpdateTime :: int
  RunAt :: int
  CheckIn :: string
  CheckInAt :: int
  DieAt :: int
  HookStatus :: string

record JobStats =
  Stats :: JobStatData

definition emptyJobStats :: JobStats where
  "emptyJobStats =
     \<lparr>Stats = \<lparr>JobID = '''', Status = '''', JobName = '''', StatKind = '''', Unique = False,
        RefLink = '''', CronSpec = '''', EnqueueTime = 0, UpdateTime = 0, RunAt = 0,
        CheckIn = '''', CheckInAt = 0, DieAt = 0, HookStatus = ''''\<rparr>\<rparr>"

text \<open>
  \<open>pool.Interface\<close>, the capability the controller consumes, over a backend state
  \<open>'s\<close>. The two queries read the state; the three enqueue operations and
  \<open>RegisterHook\<close> return their result and the state after the call. \<open>'t\<close> is the
  registered job type \<open>IsKnownJob\<close> hands back.
\<close>

record ('s, 'p, 't) Pool =
  IsKnownJob :: "string \<Rightarrow> 's \<Rightarrow> 't \<times> bool"
  ValidateJobParameters :: "'t \<Rightarrow> 'p \<Rightarrow> 's \<Rightarrow> error option"
  Enqueue :: "string \<Rightarrow> 'p \<Rightarrow> bool \<Rightarrow> 's \<Rightarrow> (JobStats \<times> error option) \<times> 's"
  Schedule :: "string \<Rightarrow> 'p \<Rightarrow> 64 word \<Rightarrow> bool \<Rightarrow> 's \<Rightarrow> (JobStats \<times> error option) \<times> 's"
  PeriodicallyEnqueue :: "string \<Rightarrow> 'p \<Rightarrow> string \<Rightarrow> 's \<Rightarrow> (JobStats \<times> error option) \<times> 's"
  RegisterHook :: "string \<Rightarrow> string \<Rightarrow> 's \<Rightarrow> error option \<times> 's"

text \<open>The calls that change the backend, recorded in the order they are made.\<close>

datatype 'p pool_call =
    EnqueueCall string 'p bool
  | ScheduleCall string 'p "64 word" bool
  | PeriodicallyEnqueueCall string 'p string
  | RegisterHookCall string string

definition validJobReq :: "world \<Rightarrow> 'p JobRequest \<Rightarrow> error option" where
  "validJobReq w req =
     (case Job req of
        None \<Rightarrow> Some EmptyJobRequest
      | Some j \<Rightarrow>
          if IsEmptyStr w (Name j) then Some JobNameMissing
          else
            (case Metadata j of
               None \<Rightarrow> Some MetadataMissing
             | Some m \<Rightarrow>
                 if JobKind m \<noteq> JobKindGeneric \<and> JobKind m \<noteq> JobKindPeriodic
                    \<and> JobKind m \<noteq> JobKindScheduled
                 then Some (JobKindNotSupported (JobKind m))
                 else if JobKind m = JobKindScheduled \<and> ScheduleDelay m = 0
                 then Some ScheduleDelayMissing
                 else if JobKind m = JobKindPeriodic then
                   (if IsEmptyStr w (Cron m) then Some CronSpecMissing
                    else
                      (case cron_Parse w (Cron m) of
                         Some e \<Rightarrow> Some (CronSpecInvalid e)
                       | None \<Rightarrow> None))
                 else None))"

text \<open>The \<open>switch\<close> of \<open>LaunchJob\<close>: the call it makes, the result and the new state.\<close>

definition dispatch ::
  "('s, 'p, 't) Pool \<Rightarrow> 'p JobData \<Rightarrow> JobMetadata \<Rightarrow> 's
     \<Rightarrow> 'p pool_call \<times> (JobStats \<times> error option) \<times> 's" where
  "dispatch P j m s =
     (if JobKind m = JobKindScheduled then
        (ScheduleCall (Name j) (Parameters j) (ScheduleDelay m) (IsUnique m),
         Schedule P (Name j) (Parameters j) (ScheduleDelay m) (IsUnique m) s)
      else if JobKind m = JobKindPeriodic then
        (PeriodicallyEnqueueCall (Name j) (Parameters j) (Cron m),
         PeriodicallyEnqueue P (Name j) (Parameters j) (Cron m) s)
      else
        (EnqueueCall (Name j) (Parameters j) (IsUnique m),
         Enqueue P (Name j) (Parameters j) (IsUnique m) s))"

text \<open>
  \<open>LaunchJob\<close> returns the pair of the statistics and the error, the backend state
  and the calls made. Reading a field through a nil pointer panics.
\<close>

definition LaunchJob ::
  "world \<Rightarrow> ('s, 'p, 't) Pool \<Rightarrow> 'p JobRequest \<Rightarrow> 's
     \<Rightarrow> ((JobStats \<times> error option) \<times> 's \<times> 'p pool_call list) go" where
  "LaunchJob w P req s =
     (case validJobReq w req of
        Some err \<Rightarrow> Returns ((emptyJobStats, Some err), s, [])
      | None \<Rightarrow>
          (case Job req of
             None \<Rightarrow> Panics NilPointerDereference
           | Some j \<Rightarrow>
               (case IsKnownJob P (Name j) s of
                  (jobType, isKnownJob) \<Rightarrow>
                    if \<not> isKnownJob
                    then Returns ((emptyJobStats, Some (JobUnknown (Name j))), s, [])
                    else
                      (case ValidateJobParameters P jobType (Parameters j) s of
                         Some err \<Rightarrow> Returns ((emptyJobStats, Some err), s, [])
                       | None \<Rightarrow>
                           (case Metadata j of
                              None \<Rightarrow> Panics NilPointerDereference
                            | Some m \<Rightarrow>
                                (case dispatch P j m s of
                                   (call, (res, err), s1) \<Rightarrow>
                                     if err = None then
                                       if \<not> IsEmptyStr w (StatusHook j) then
                                         (case RegisterHook P (JobID (Stats res)) (StatusHook j) s1 of
                                            (Some herr, s2) \<Rightarrow>
                                              Returns
                                                ((res\<lparr>Stats := (Stats res)\<lparr>HookStatus := hookDeactivated\<rparr>\<rparr>, err),
                                                 s2,
                                                 [call, RegisterHookCall (JobID (Stats res)) (StatusHook j)])
                                          | (None, s2) \<Rightarrow>
                                              Returns
                                                ((res\<lparr>Stats := (Stats res)\<lparr>HookStatus := hookActivated\<rparr>\<rparr>, err),
                                                 s2,
                                                 [call, RegisterHookCall (JobID (Stats res)) (StatusHook j)]))
                                       else Returns ((res, err), s1, [call])
                                     else Returns ((res, err), s1, [call])))))))"

subsection \<open>The normative order of validation, as the specification words it\<close>

text \<open>
  The specification lists the checks of \<open>LaunchJob\<close> in order. Each check is stated
  here on its own, for any request, so that a request can fail several of them; a check
  that speaks of a part the request lacks fails, and a check of the form
  ``kind K implies ...'' holds of a request that has no kind.
\<close>

datatype check =
    JobPresent
  | NameNonEmpty
  | MetadataPresent
  | KindSupported
  | DelayPositive
  | CronNonEmpty
  | CronParseable
  | NameRegistered
  | ParametersValid

definition normative_order :: "check list" where
  "normative_order =
     [JobPresent, NameNonEmpty, MetadataPresent, KindSupported, DelayPositive,
      CronNonEmpty, CronParseable, NameRegistered, ParametersValid]"

definition metadata_of :: "'p JobRequest \<Rightarrow> JobMetadata option" where
  "metadata_of req = (case Job req of None \<Rightarrow> None | Some j \<Rightarrow> Metadata j)"

fun holds :: "world \<Rightarrow> ('s, 'p, 't) Pool \<Rightarrow> 's \<Rightarrow> 'p JobRequest \<Rightarrow> check \<Rightarrow> bool" where
  "holds w P s req JobPresent = (Job req \<noteq> None)"
| "holds w P s req NameNonEmpty =
     (case Job req of None \<Rightarrow> False | Some j \<Rightarrow> \<not> IsEmptyStr w (Name j))"
| "holds w P s req MetadataPresent = (metadata_of req \<noteq> None)"
| "holds w P s req KindSupported =
     (case metadata_of req of
        None \<Rightarrow> False
      | Some m \<Rightarrow> JobKind m \<in> {JobKindGeneric, JobKindScheduled, JobKindPeriodic})"
| "holds w P s req DelayPositive =
     (case metadata_of req of
        None \<Rightarrow> True
      | Some m \<Rightarrow> if JobKind m = JobKindScheduled then 0 < ScheduleDelay m else True)"
| "holds w P s req CronNonEmpty =
     (case metadata_of req of
        None \<Rightarrow> True
      | Some m \<Rightarrow> if JobKind m = JobKindPeriodic then \<not> IsEmptyStr w (Cron m) else True)"
| "holds w P s req CronParseable =
     (case metadata_of req of
        None \<Rightarrow> True
      | Some m \<Rightarrow> if JobKind m = JobKindPeriodic then cron_Parse w (Cron m) = None else True)"
| "holds w P s req NameRegistered =
     (case Job req of None \<Rightarrow> False | Some j \<Rightarrow> snd (IsKnownJob P (Name j) s))"
| "holds w P s req ParametersValid =
     (case Job req of
        None \<Rightarrow> False
      | Some j \<Rightarrow>
          ValidateJobParameters P (fst (IsKnownJob P (Name j) s)) (Parameters j) s = None)"

text \<open>The error a failed check is answered with.\<close>

fun failure :: "world \<Rightarrow> ('s, 'p, 't) Pool \<Rightarrow> 's \<Rightarrow> 'p JobRequest \<Rightarrow> check \<Rightarrow> error" where
  "failure w P s req JobPresent = EmptyJobRequest"
| "failure w P s req NameNonEmpty = JobNameMissing"
| "failure w P s req MetadataPresent = MetadataMissing"
| "failure w P s req KindSupported =
     JobKindNotSupported (case metadata_of req of None \<Rightarrow> '''' | Some m \<Rightarrow> JobKind m)"
| "failure w P s req DelayPositive = ScheduleDelayMissing"
| "failure w P s req CronNonEmpty = CronSpecMissing"
| "failure w P s req CronParseable =
     CronSpecInvalid
       (case metadata_of req of
          None \<Rightarrow> ''''
        | Some m \<Rightarrow> (case cron_Parse w (Cron m) of None \<Rightarrow> '''' | Some e \<Rightarrow> e))"
| "failure w P s req NameRegistered =
     JobUnknown (case Job req of None \<Rightarrow> '''' | Some j \<Rightarrow> Name j)"
| "failure w P s req ParametersValid =
     (case Job req of
        None \<Rightarrow> Other ''''
      | Some j \<Rightarrow>
          (case ValidateJobParameters P (fst (IsKnownJob P (Name j) s)) (Parameters j) s of
             None \<Rightarrow> Other ''''
           | Some e \<Rightarrow> e))"

definition first_failure ::
  "world \<Rightarrow> ('s, 'p, 't) Pool \<Rightarrow> 's \<Rightarrow> 'p JobRequest \<Rightarrow> check option" where
  "first_failure w P s req = find (\<lambda>chk. \<not> holds w P s req chk) normative_order"

definition is_enqueue :: "'p pool_call \<Rightarrow> bool" where
  "is_enqueue call =
     (case call of
        EnqueueCall _ _ _ \<Rightarrow> True
      | ScheduleCall _ _ _ _ \<Rightarrow> True
      | PeriodicallyEnqueueCall _ _ _ \<Rightarrow> True
      | RegisterHookCall _ _ \<Rightarrow> False)"

definition request_checks :: "check list" where
  "request_checks =
     [JobPresent, NameNonEmpty, MetadataPresent, KindSupported, DelayPositive,
      CronNonEmpty, CronParseable]"

section \<open>Package config: loading and validating\<close>

definition jobServiceProtocol :: string where "jobServiceProtocol = ''JOB_SERVICE_PROTOCOL''"
definition jobServicePort :: string where "jobServicePort = ''JOB_SERVICE_PORT''"
definition jobServiceHTTPCert :: string where "jobServiceHTTPCert = ''JOB_SERVICE_HTTPS_CERT''"
definition jobServiceHTTPKey :: string where "jobServiceHTTPKey = ''JOB_SERVICE_HTTPS_KEY''"
definition jobServiceWorkerPoolBackend :: string where
  "jobServiceWorkerPoolBackend = ''JOB_SERVICE_POOL_BACKEND''"
definition jobServiceWorkers :: string where "jobServiceWorkers = ''JOB_SERVICE_POOL_WORKERS''"
definition jobServiceRedisURL :: string where "jobServiceRedisURL = ''JOB_SERVICE_POOL_REDIS_URL''"
definition jobServiceRedisNamespace :: string where
  "jobServiceRedisNamespace = ''JOB_SERVICE_POOL_REDIS_NAMESPACE''"
definition jobServiceLoggerBasePath :: string where
  "jobServiceLoggerBasePath = ''JOB_SERVICE_LOGGER_BASE_PATH''"
definition jobServiceLoggerLevel :: string where
  "jobServiceLoggerLevel = ''JOB_SERVICE_LOGGER_LEVEL''"
definition jobServiceLoggerArchivePeriod :: string where
  "jobServiceLoggerArchivePeriod = ''JOB_SERVICE_LOGGER_ARCHIVE_PERIOD''"
definition JobServiceProtocolHTTPS :: string where "JobServiceProtocolHTTPS = ''https''"
definition JobServiceProtocolHTTP :: string where "JobServiceProtocolHTTP = ''http''"
definition JobServicePoolBackendRedis :: string where "JobServicePoolBackendRedis = ''redis''"
definition uiAuthSecret :: string where "uiAuthSecret = ''CORE_SECRET''"
definition redisSchema :: string where "redisSchema = ''redis://''"

text \<open>The zero values \<open>&PoolConfig{}\<close>, \<open>&RedisPoolConfig{}\<close> and \<open>&LoggerConfig{}\<close>.\<close>

definition zeroHTTPSConfig :: HTTPSConfig where
  "zeroHTTPSConfig = \<lparr>Cert = [], Key = []\<rparr>"

definition zeroRedisPoolConfig :: RedisPoolConfig where
  "zeroRedisPoolConfig = \<lparr>RedisURL = [], Namespace = []\<rparr>"

definition zeroPoolConfig :: PoolConfig where
  "zeroPoolConfig = \<lparr>WorkerCount = 0, Backend = [], RedisPoolCfg = None\<rparr>"

definition zeroLoggerConfig :: LoggerConfig where
  "zeroLoggerConfig = \<lparr>BasePath = [], LogLevel = [], ArchivePeriod = 0\<rparr>"

subsection \<open>Decoding the YAML file into the struct\<close>

text \<open>
  \<open>yaml.Unmarshal(data, c)\<close> writes what the document holds into the struct it is
  given and leaves every other field as it was. A scalar key overwrites its field. A
  mapping under the key of a pointer field is decoded into the struct the pointer refers
  to, which is allocated (all fields zero) when the pointer is nil; a null sets the
  pointer to nil.
\<close>

definition yaml_scalar :: "'a option \<Rightarrow> 'a \<Rightarrow> 'a" where
  "yaml_scalar y old = (case y of None \<Rightarrow> old | Some v \<Rightarrow> v)"

definition yaml_pointer :: "('d \<Rightarrow> 'a \<Rightarrow> 'a) \<Rightarrow> 'a \<Rightarrow> 'd yaml_ptr \<Rightarrow> 'a option \<Rightarrow> 'a option" where
  "yaml_pointer decode zero y old =
     (case y of
        YAbsent \<Rightarrow> old
      | YNull \<Rightarrow> None
      | YMapping d \<Rightarrow> Some (decode d (case old of None \<Rightarrow> zero | Some v \<Rightarrow> v)))"

definition decode_https :: "yaml_https_config \<Rightarrow> HTTPSConfig \<Rightarrow> HTTPSConfig" where
  "decode_https d h = \<lparr>Cert = yaml_scalar (y_cert d) (Cert h), Key = yaml_scalar (y_key d) (Key h)\<rparr>"

definition decode_redis_pool :: "yaml_redis_pool \<Rightarrow> RedisPoolConfig \<Rightarrow> RedisPoolConfig" where
  "decode_redis_pool d r =
     \<lparr>RedisURL = yaml_scalar (y_redis_url d) (RedisURL r),
      Namespace = yaml_scalar (y_namespace d) (Namespace r)\<rparr>"

definition decode_worker_pool :: "yaml_worker_pool \<Rightarrow> PoolConfig \<Rightarrow> PoolConfig" where
  "decode_worker_pool d p =
     \<lparr>WorkerCount = yaml_scalar (y_workers d) (WorkerCount p),
      Backend = yaml_scalar (y_backend d) (Backend p),
      RedisPoolCfg =
        yaml_pointer decode_redis_pool zeroRedisPoolConfig (y_redis_pool d) (RedisPoolCfg p)\<rparr>"

definition decode_logger :: "yaml_logger \<Rightarrow> LoggerConfig \<Rightarrow> LoggerConfig" where
  "decode_logger d l =
     \<lparr>BasePath = yaml_scalar (y_path d) (BasePath l),
      LogLevel = yaml_scalar (y_level d) (LogLevel l),
      ArchivePeriod = yaml_scalar (y_archive_period d) (ArchivePeriod l)\<rparr>"

definition decode_doc :: "yaml_doc \<Rightarrow> Configuration \<Rightarrow> Configuration" where
  "decode_doc d c =
     \<lparr>Protocol = yaml_scalar (y_protocol d) (Protocol c),
      Port = yaml_scalar (y_port d) (Port c),
      HTTPSConfig = yaml_pointer decode_https zeroHTTPSConfig (y_https_config d) (HTTPSConfig c),
      PoolConfig = yaml_pointer decode_worker_pool zeroPoolConfig (y_worker_pool d) (PoolConfig c),
      LoggerConfig = yaml_pointer decode_logger zeroLoggerConfig (y_logger d) (LoggerConfig c)\<rparr>"

definition yaml_Unmarshal :: "world \<Rightarrow> string \<Rightarrow> Configuration \<Rightarrow> error option \<times> Configuration" where
  "yaml_Unmarshal w data c =
     (case yaml_Decode w data of (err, d) \<Rightarrow> (map_option Other err, decode_doc d c))"

subsection \<open>The environment variables\<close>

text \<open>
  \<open>loadEnvs\<close> is a sequence of blocks, one or two per variable; each block is one
  function here, in the order of the source. \<open>uint(n)\<close> of an \<open>int\<close> keeps the low
  64 bits.
\<close>

definition env_protocol :: "world \<Rightarrow> Configuration \<Rightarrow> Configuration" where
  "env_protocol w c =
     (let prot = ReadEnv w jobServiceProtocol
      in if \<not> IsEmptyStr w prot then c\<lparr>Protocol := prot\<rparr> else c)"

definition env_port :: "world \<Rightarrow> Configuration \<Rightarrow> Configuration" where
  "env_port w c =
     (let p = ReadEnv w jobServicePort
      in if \<not> IsEmptyStr w p then
           (case strconv_Atoi w p of Some po \<Rightarrow> c\<lparr>Port := word_of_int po\<rparr> | None \<Rightarrow> c)
         else c)"

definition env_cert :: "world \<Rightarrow> Configuration \<Rightarrow> Configuration" where
  "env_cert w c =
     (let cert = ReadEnv w jobServiceHTTPCert
      in if \<not> IsEmptyStr w cert then
           (case HTTPSConfig c of
              Some h \<Rightarrow> c\<lparr>HTTPSConfig := Some (h\<lparr>Cert := cert\<rparr>)\<rparr>
            | None \<Rightarrow> c\<lparr>HTTPSConfig := Some \<lparr>Cert = cert, Key = []\<rparr>\<rparr>)
         else c)"

definition env_certKey :: "world \<Rightarrow> Configuration \<Rightarrow> Configuration" where
  "env_certKey w c =
     (let certKey = ReadEnv w jobServiceHTTPKey
      in if \<not> IsEmptyStr w certKey then
           (case HTTPSConfig c of
              Some h \<Rightarrow> c\<lparr>HTTPSConfig := Some (h\<lparr>Key := certKey\<rparr>)\<rparr>
            | None \<Rightarrow> c\<lparr>HTTPSConfig := Some \<lparr>Cert = [], Key = certKey\<rparr>\<rparr>)
         else c)"

definition env_https :: "world \<Rightarrow> Configuration \<Rightarrow> Configuration" where
  "env_https w c =
     (if Protocol c = JobServiceProtocolHTTPS then env_certKey w (env_cert w c) else c)"

definition pool_or_new :: "Configuration \<Rightarrow> PoolConfig" where
  "pool_or_new c = (case PoolConfig c of None \<Rightarrow> zeroPoolConfig | Some p \<Rightarrow> p)"

definition env_backend :: "world \<Rightarrow> Configuration \<Rightarrow> Configuration" where
  "env_backend w c =
     (let backend = ReadEnv w jobServiceWorkerPoolBackend
      in if \<not> IsEmptyStr w backend
         then c\<lparr>PoolConfig := Some ((pool_or_new c)\<lparr>Backend := backend\<rparr>)\<rparr>
         else c)"

definition env_workers :: "world \<Rightarrow> Configuration \<Rightarrow> Configuration" where
  "env_workers w c =
     (let workers = ReadEnv w jobServiceWorkers
      in if \<not> IsEmptyStr w workers then
           (case strconv_Atoi w workers of
              Some count \<Rightarrow> c\<lparr>PoolConfig := Some ((pool_or_new c)\<lparr>WorkerCount := word_of_int count\<rparr>)\<rparr>
            | None \<Rightarrow> c)
         else c)"

definition redis_or_new :: "PoolConfig \<Rightarrow> RedisPoolConfig" where
  "redis_or_new p = (case RedisPoolCfg p of None \<Rightarrow> zeroRedisPoolConfig | Some r \<Rightarrow> r)"

definition env_redisURL :: "world \<Rightarrow> PoolConfig \<Rightarrow> PoolConfig" where
  "env_redisURL w p =
     (let redisURL = ReadEnv w jobServiceRedisURL
      in if \<not> IsEmptyStr w redisURL
         then p\<lparr>RedisPoolCfg := Some ((redis_or_new p)\<lparr>RedisURL := redisURL\<rparr>)\<rparr>
         else p)"

definition env_redisNamespace :: "world \<Rightarrow> PoolConfig \<Rightarrow> PoolConfig" where
  "env_redisNamespace w p =
     (let rn = ReadEnv w jobServiceRedisNamespace
      in if \<not> IsEmptyStr w rn
         then p\<lparr>RedisPoolCfg := Some ((redis_or_new p)\<lparr>Namespace := rn\<rparr>)\<rparr>
         else p)"

definition env_redis :: "world \<Rightarrow> Configuration \<Rightarrow> Configuration" where
  "env_redis w c =
     (case PoolConfig c of
        None \<Rightarrow> c
      | Some p \<Rightarrow>
          if Backend p = JobServicePoolBackendRedis
          then c\<lparr>PoolConfig := Some (env_redisNamespace w (env_redisURL w p))\<rparr>
          else c)"

definition logger_or_new :: "Configuration \<Rightarrow> LoggerConfig" where
  "logger_or_new c = (case LoggerConfig c of None \<Rightarrow> zeroLoggerConfig | Some l \<Rightarrow> l)"

definition env_loggerPath :: "world \<Rightarrow> Configuration \<Rightarrow> Configuration" where
  "env_loggerPath w c =
     (let loggerPath = ReadEnv w jobServiceLoggerBasePath
      in if \<not> IsEmptyStr w loggerPath
         then c\<lparr>LoggerConfig := Some ((logger_or_new c)\<lparr>BasePath := loggerPath\<rparr>)\<rparr>
         else c)"

definition env_loggerLevel :: "world \<Rightarrow> Configuration \<Rightarrow> Configuration" where
  "env_loggerLevel w c =
     (let loggerLevel = ReadEnv w jobServiceLoggerLevel
      in if \<not> IsEmptyStr w loggerLevel
         then c\<lparr>LoggerConfig := Some ((logger_or_new c)\<lparr>LogLevel := loggerLevel\<rparr>)\<rparr>
         else c)"

definition env_archivePeriod :: "world \<Rightarrow> Configuration \<Rightarrow> Configuration" where
  "env_archivePeriod w c =
     (let archivePeriod = ReadEnv w jobServiceLoggerArchivePeriod
      in if \<not> IsEmptyStr w archivePeriod then
           (case strconv_Atoi w archivePeriod of
              Some period \<Rightarrow>
                c\<lparr>LoggerConfig := Some ((logger_or_new c)\<lparr>ArchivePeriod := word_of_int period\<rparr>)\<rparr>
            | None \<Rightarrow> c)
         else c)"

definition loadEnvs :: "world \<Rightarrow> Configuration \<Rightarrow> Configuration" where
  "loadEnvs w c =
     env_archivePeriod w (env_loggerLevel w (env_loggerPath w (env_redis w (env_workers w
       (env_backend w (env_https w (env_port w (env_protocol w c))))))))"

subsection \<open>Normalising the redis address, validating, loading\<close>

definition set_RedisURL :: "string \<Rightarrow> Configuration \<Rightarrow> Configuration" where
  "set_RedisURL u c =
     (case PoolConfig c of
        None \<Rightarrow> c
      | Some p \<Rightarrow>
          (case RedisPoolCfg p of
             None \<Rightarrow> c
           | Some r \<Rightarrow> c\<lparr>PoolConfig := Some (p\<lparr>RedisPoolCfg := Some (r\<lparr>RedisURL := u\<rparr>)\<rparr>)\<rparr>))"

text \<open>The block of \<open>Load\<close> headed ``translate redis url if needed''.\<close>

definition translateRedisURL :: "world \<Rightarrow> Configuration \<Rightarrow> Configuration" where
  "translateRedisURL w c =
     (case PoolConfig c of
        None \<Rightarrow> c
      | Some p \<Rightarrow>
          (case RedisPoolCfg p of
             None \<Rightarrow> c
           | Some r \<Rightarrow>
               (let redisAddress = RedisURL r
                in if \<not> IsEmptyStr w redisAddress then
                     (case url_Parse w redisAddress of
                        Some err \<Rightarrow>
                          (case TranslateRedisAddress w redisAddress of
                             (redisURL, ok) \<Rightarrow> if ok then set_RedisURL redisURL c else c)
                      | None \<Rightarrow>
                          if \<not> HasPrefix redisAddress redisSchema
                          then set_RedisURL (redisSchema @ redisAddress) c
                          else c)
                   else c)))"

text \<open>
  The address the block of \<open>Load\<close> headed ``translate redis url if needed'' leaves in
  the struct, given the address it finds there; \<open>translateRedisURL\<close> below is the
  block itself.
\<close>

definition normalised_address :: "world \<Rightarrow> string \<Rightarrow> string" where
  "normalised_address w redisAddress =
     (if \<not> IsEmptyStr w redisAddress then
        (case url_Parse w redisAddress of
           Some err \<Rightarrow>
             (case TranslateRedisAddress w redisAddress of
                (redisURL, ok) \<Rightarrow> if ok then redisURL else redisAddress)
         | None \<Rightarrow>
             if \<not> HasPrefix redisAddress redisSchema then redisSchema @ redisAddress
             else redisAddress)
      else redisAddress)"

definition validLevels :: string where
  "validLevels = ''DEBUG,INFO,WARNING,ERROR,FATAL''"

definition validate_https :: "world \<Rightarrow> Configuration \<Rightarrow> error option" where
  "validate_https w c =
     (if Protocol c = JobServiceProtocolHTTPS then
        (case HTTPSConfig c of
           None \<Rightarrow> Some (CertificateNotConfigured (Protocol c))
         | Some h \<Rightarrow>
             if IsEmptyStr w (Cert h) \<or> \<not> FileExists w (Cert h)
                \<or> IsEmptyStr w (Key h) \<or> \<not> FileExists w (Key h)
             then Some (CertificateInvalid (Protocol c))
             else None)
      else None)"

definition validate_redis :: "world \<Rightarrow> PoolConfig \<Rightarrow> error option" where
  "validate_redis w p =
     (if Backend p = JobServicePoolBackendRedis then
        (case RedisPoolCfg p of
           None \<Rightarrow> Some (RedisPoolMissing (Backend p))
         | Some r \<Rightarrow>
             if IsEmptyStr w (RedisURL r) then Some RedisURLEmpty
             else if \<not> HasPrefix (RedisURL r) redisSchema then Some RedisURLInvalid
             else
               (case url_Parse w (RedisURL r) of
                  Some err \<Rightarrow> Some (RedisURLUnparsable err)
                | None \<Rightarrow>
                    if IsEmptyStr w (Namespace r) then Some RedisNamespaceMissing else None))
      else None)"

definition validate_logger :: "world \<Rightarrow> Configuration \<Rightarrow> error option" where
  "validate_logger w c =
     (case LoggerConfig c of
        None \<Rightarrow> Some LoggerConfigMissing
      | Some l \<Rightarrow>
          if \<not> DirExists w (BasePath l) then Some (LoggerPathInvalid (BasePath l))
          else if \<not> Contains validLevels (LogLevel l) then Some (LoggerLevelInvalid validLevels)
          else if ArchivePeriod l = 0 then Some ArchivePeriodInvalid
          else None)"

definition validate :: "world \<Rightarrow> Configuration \<Rightarrow> error option" where
  "validate w c =
     (if Protocol c \<noteq> JobServiceProtocolHTTPS \<and> Protocol c \<noteq> JobServiceProtocolHTTP
      then Some (ProtocolInvalid (Protocol c))
      else if \<not> IsValidPort w (Port c) then Some PortInvalid
      else
        (case validate_https w c of
           Some err \<Rightarrow> Some err
         | None \<Rightarrow>
             (case PoolConfig c of
                None \<Rightarrow> Some NoWorkerPool
              | Some p \<Rightarrow>
                  if Backend p \<noteq> JobServicePoolBackendRedis
                  then Some (BackendNotSupported (Backend p))
                  else
                    (case validate_redis w p of
                       Some err \<Rightarrow> Some err
                     | None \<Rightarrow> validate_logger w c))))"

text \<open>
  \<open>Load\<close> changes the struct it is called on and returns an error or nil: the pair of
  the error and the struct after the call.
\<close>

definition Load :: "world \<Rightarrow> string \<Rightarrow> bool \<Rightarrow> Configuration \<Rightarrow> error option \<times> Configuration" where
  "Load w yamlFilePath detectEnv c =
     (case
        (if \<not> IsEmptyStr w yamlFilePath then
           (case ReadFile w yamlFilePath of
              Inl err \<Rightarrow> (Some (Other err), c)
            | Inr data \<Rightarrow> yaml_Unmarshal w data c)
         else (None, c))
      of
        (Some err, c1) \<Rightarrow> (Some err, c1)
      | (None, c1) \<Rightarrow>
          (let c2 = (if detectEnv then loadEnvs w c1 else c1);
               c3 = translateRedisURL w c2
           in (validate w c3, c3)))"


definition GetLogBasePath :: "Configuration \<Rightarrow> string" where
  "GetLogBasePath DefaultConfig =
     (case LoggerConfig DefaultConfig of Some l \<Rightarrow> BasePath l | None \<Rightarrow> [])"

definition GetLogLevel :: "Configuration \<Rightarrow> string" where
  "GetLogLevel DefaultConfig =
     (case LoggerConfig DefaultConfig of Some l \<Rightarrow> LogLevel l | None \<Rightarrow> [])"

definition GetUIAuthSecret :: "world \<Rightarrow> string" where
  "GetUIAuthSecret w = ReadEnv w uiAuthSecret"

section \<open>Package api: the authenticator\<close>

text \<open>
  Of the request \<open>DoAuth\<close> reads the header only: a \<open>map[string][]string\<close>, of
  which \<open>Get\<close> gives the first value under the key, or the empty string. A nil
  request is \<open>None\<close>.
\<close>

record Request =
  Header :: "string \<rightharpoonup> string list"

definition Header_Get :: "(string \<rightharpoonup> string list) \<Rightarrow> string \<Rightarrow> string" where
  "Header_Get h key = (case h key of None \<Rightarrow> [] | Some [] \<Rightarrow> [] | Some (v # _) \<Rightarrow> v)"

definition authHeader :: string where "authHeader = ''Authorization''"

definition DoAuth :: "world \<Rightarrow> Request option \<Rightarrow> error option" where
  "DoAuth w req =
     (case req of
        None \<Rightarrow> Some NilRequest
      | Some r \<Rightarrow>
          (let secret = TrimSpace (Header_Get (Header r) authHeader)
           in if IsEmptyStr w secret then Some (HeaderMissing authHeader)
              else
                (let expectedSecret = GetUIAuthSecret w
                 in if secret \<noteq> expectedSecret then Some Unauthorized else None)))"

section \<open>Package impl: building the context of one execution\<close>

text \<open>
  Modelled from the spec: \<open>env.JobData\<close>, whose declaration is not among the sources;
  the spec gives it an identifier, the parameters and the extra data. \<open>Build\<close> reads
  the identifier and the extra data, a \<open>map[string]interface{}\<close>.
\<close>

record 's env_JobData =
  ID :: string
  ExtraData :: "string \<rightharpoonup> 's iface"

text \<open>
  \<open>reflect.TypeOf(v).Kind() == reflect.Func\<close>: \<open>TypeOf\<close> of the nil interface is the
  nil \<open>Type\<close>, on which the call of \<open>Kind\<close> panics.
\<close>

definition reflect_Kind_is_Func :: "'s iface \<Rightarrow> bool go" where
  "reflect_Kind_is_Func v =
     (case v of
        NilInterface \<Rightarrow> Panics NilPointerDereference
      | OPCmdFuncValue _ \<Rightarrow> Returns True
      | CheckInFuncValue _ \<Rightarrow> Returns True
      | OtherFuncValue \<Rightarrow> Returns True
      | NonFuncValue _ \<Rightarrow> Returns False)"

text \<open>The type assertions \<open>v.(job.CheckOPCmdFunc)\<close> and \<open>v.(job.CheckInFunc)\<close>.\<close>

definition assert_CheckOPCmdFunc :: "'s iface \<Rightarrow> 's CheckOPCmdFunc option \<times> bool" where
  "assert_CheckOPCmdFunc v = (case v of OPCmdFuncValue f \<Rightarrow> (f, True) | _ \<Rightarrow> (None, False))"

definition assert_CheckInFunc :: "'s iface \<Rightarrow> 's CheckInFunc option \<times> bool" where
  "assert_CheckInFunc v = (case v of CheckInFuncValue f \<Rightarrow> (f, True) | _ \<Rightarrow> (None, False))"

definition inject_opCommandFunc ::
  "('x, 's) Context \<Rightarrow> 's env_JobData \<Rightarrow> ('x, 's) Context go" where
  "inject_opCommandFunc jContext dep =
     (case ExtraData dep ''opCommandFunc'' of
        None \<Rightarrow> Returns jContext
      | Some entry \<Rightarrow>
          (case reflect_Kind_is_Func entry of
             Panics e \<Rightarrow> Panics e
           | Returns isFunc \<Rightarrow>
               if isFunc then
                 (case assert_CheckOPCmdFunc entry of
                    (funcRef, ok) \<Rightarrow>
                      if ok then Returns (jContext\<lparr>opCommandFunc := funcRef\<rparr>)
                      else Returns jContext)
               else Returns jContext))"

definition inject_checkInFunc ::
  "('x, 's) Context \<Rightarrow> 's env_JobData \<Rightarrow> ('x, 's) Context go" where
  "inject_checkInFunc jContext dep =
     (case ExtraData dep ''checkInFunc'' of
        None \<Rightarrow> Returns jContext
      | Some entry \<Rightarrow>
          (case reflect_Kind_is_Func entry of
             Panics e \<Rightarrow> Panics e
           | Returns isFunc \<Rightarrow>
               if isFunc then
                 (case assert_CheckInFunc entry of
                    (funcRef, ok) \<Rightarrow>
                      if ok then Returns (jContext\<lparr>checkInFunc := funcRef\<rparr>)
                      else Returns jContext)
               else Returns jContext))"

text \<open>
  \<open>Build\<close> returns the new context or an error, or panics. \<open>DefaultConfig\<close> is the
  process-wide configuration the two getters read. The loop that copies the properties
  writes every entry of the template into the new, empty map; over an empty map it
  writes nothing, so the test of the length that guards it changes nothing.
\<close>

definition Build ::
  "world \<Rightarrow> Configuration \<Rightarrow> ('x, 's) Context \<Rightarrow> 's env_JobData
     \<Rightarrow> (error + ('x, 's) Context) go" where
  "Build w DefaultConfig c dep =
     (let jContext0 = \<lparr>sysContext = sysContext c, logger = None, opCommandFunc = None,
                        checkInFunc = None, properties = Map.empty\<rparr>;
          jContext1 = jContext0\<lparr>properties := properties jContext0 ++ properties c\<rparr>;
          logPath = GetLogBasePath DefaultConfig @ ''/'' @ ID dep @ ''.log'';
          jContext2 = jContext1\<lparr>logger := jlogger_New w logPath (GetLogLevel DefaultConfig)\<rparr>
      in if logger jContext2 = None then Returns (Inl LoggerInitFailed)
         else
           (case inject_opCommandFunc jContext2 dep of
              Panics e \<Rightarrow> Panics e
            | Returns jContext3 \<Rightarrow>
                if opCommandFunc jContext3 = None then Returns (Inl InjectOpCommandFailed)
                else
                  (case inject_checkInFunc jContext3 dep of
                     Panics e \<Rightarrow> Panics e
                   | Returns jContext4 \<Rightarrow>
                       if checkInFunc jContext4 = None then Returns (Inl InjectCheckInFailed)
                       else Returns (Inr jContext4))))"

section \<open>A concrete world and pool, for evaluation\<close>

text \<open>
  One choice of the collaborators, on which the functions above can be run: emptiness
  is judged after trimming white space, the environment holds the secret
  \<open>s3cret\<close> and the logger level \<open>DEBUG\<close>, the only directory is
  \<open>/var/log/jobs\<close>, a URL fails to parse when it holds a percent sign, and the only
  cron expression accepted fires every second.
\<close>

definition empty_doc :: yaml_doc where
  "empty_doc =
     \<lparr>y_protocol = None, y_port = None, y_https_config = YAbsent, y_worker_pool = YAbsent,
      y_logger = YAbsent\<rparr>"

text \<open>The document of the README's sample, served over plain HTTP.\<close>

definition demo_doc :: yaml_doc where
  "demo_doc =
     \<lparr>y_protocol = Some ''http'', y_port = Some 9443, y_https_config = YAbsent,
      y_worker_pool = YMapping
        \<lparr>y_workers = Some 10, y_backend = Some ''redis'',
         y_redis_pool = YMapping
           \<lparr>y_redis_url = Some ''redis:6379'', y_namespace = Some ''harbor_job_service''\<rparr>\<rparr>,
      y_logger = YMapping
        \<lparr>y_path = Some ''/var/log/jobs'', y_level = Some ''INFO'', y_archive_period = Some 1\<rparr>\<rparr>"

definition demo_world :: world where
  "demo_world =
     \<lparr>IsEmptyStr = (\<lambda>s. TrimSpace s = []),
      ReadEnv = (\<lambda>k. if k = ''CORE_SECRET'' then ''s3cret''
                     else if k = ''JOB_SERVICE_LOGGER_LEVEL'' then ''DEBUG'' else []),
      FileExists = (\<lambda>p. False),
      DirExists = (\<lambda>p. p = ''/var/log/jobs''),
      IsValidPort = (\<lambda>p. 0 < p \<and> p \<le> 65535),
      TranslateRedisAddress = (\<lambda>a. ([], False)),
      url_Parse = (\<lambda>u. if CHR ''%'' \<in> set u then Some ''invalid URL escape'' else None),
      strconv_Atoi = (\<lambda>a. if a = ''8080'' then Some 8080 else None),
      cron_Parse = (\<lambda>c. if c = ''*/1 * * * * *'' then None else Some ''bad cron''),
      jlogger_New = (\<lambda>path level. Some (Logger path level)),
      ReadFile = (\<lambda>path. if path = ''/etc/job/config.yml'' then Inr ''demo'' else Inl ''no such file''),
      yaml_Decode = (\<lambda>data. if data = ''demo'' then (None, demo_doc) else (Some ''cannot decode'', empty_doc))\<rparr>"


text \<open>
  A pool whose state counts the jobs it took: it knows the job \<open>demo\<close>, wants at least
  one parameter, and fails to register the hook \<open>http://down\<close>.
\<close>

definition demo_stats :: "string \<Rightarrow> string \<Rightarrow> bool \<Rightarrow> JobStats" where
  "demo_stats name kind unique =
     emptyJobStats\<lparr>Stats := (Stats emptyJobStats)
       \<lparr>JobID := ''id-'' @ name, JobName := name, StatKind := kind, Unique := unique\<rparr>\<rparr>"

definition demo_pool :: "(nat, (string \<times> string) list, string) Pool" where
  "demo_pool =
     \<lparr>IsKnownJob = (\<lambda>name s. (name, name = ''demo'')),
      ValidateJobParameters =
        (\<lambda>t params s. if params = [] then Some (Other ''parameters required'') else None),
      Enqueue = (\<lambda>name params unique s. ((demo_stats name JobKindGeneric unique, None), Suc s)),
      Schedule =
        (\<lambda>name params delay unique s. ((demo_stats name JobKindScheduled unique, None), Suc s)),
      PeriodicallyEnqueue =
        (\<lambda>name params cron s. ((demo_stats name JobKindPeriodic False, None), Suc s)),
      RegisterHook =
        (\<lambda>jobID url s. (if url = ''http://down'' then Some (Other ''hook store down'') else None, s))\<rparr>"

text \<open>
  The zero value \<open>&Configuration{}\<close> that \<open>DefaultConfig\<close> starts as, and the
  configuration of the README's sample with a logger level to choose.
\<close>

definition zeroConfiguration :: Configuration where
  "zeroConfiguration =
     \<lparr>Protocol = [], Port = 0, HTTPSConfig = None, PoolConfig = None, LoggerConfig = None\<rparr>"

definition demo_config :: "string \<Rightarrow> Configuration" where
  "demo_config level =
     \<lparr>Protocol = ''http'', Port = 9443, HTTPSConfig = None,
      PoolConfig = Some
        \<lparr>WorkerCount = 10, Backend = ''redis'',
         RedisPoolCfg = Some
           \<lparr>RedisURL = ''redis://redis:6379'', Namespace = ''harbor_job_service''\<rparr>\<rparr>,
      LoggerConfig = Some \<lparr>BasePath = ''/var/log/jobs'', LogLevel = level, ArchivePeriod = 1\<rparr>\<rparr>"

definition demo_request ::
  "string \<Rightarrow> string \<Rightarrow> 64 word \<Rightarrow> string \<Rightarrow> (string \<times> string) list JobRequest" where
  "demo_request name kind delay hook =
     \<lparr>Job = Some \<lparr>Name = name, Parameters = [(''image'', ''demo-x'')],
        Metadata = Some \<lparr>JobKind = kind, ScheduleDelay = delay, Cron = [], IsUnique = False\<rparr>,
        StatusHook = hook\<rparr>\<rparr>"

section \<open>Properties\<close>

subsection \<open>Validation and dispatch in the controller\<close>

lemma find_app:
  "find Q (xs @ ys) = (case find Q xs of Some x \<Rightarrow> Some x | None \<Rightarrow> find Q ys)"
  by (induction xs) simp_all

lemma find_two:
  "find Q [a, b] = (if Q a then Some a else if Q b then Some b else None)"
  by simp

lemma validJobReq_first_failure:
  "validJobReq w req =
     map_option (failure w P s req) (find (\<lambda>chk. \<not> holds w P s req chk) request_checks)"
proof (cases "Job req")
  case None
  then show ?thesis by (simp add: validJobReq_def request_checks_def)
next
  case (Some j)
  show ?thesis
  proof (cases "Metadata j")
    case None
    with Some show ?thesis by (simp add: validJobReq_def request_checks_def metadata_of_def)
  next
    case (Some m)
    with \<open>Job req = Some j\<close> show ?thesis
      by (simp add: validJobReq_def request_checks_def metadata_of_def word_neq_0_conv split: option.splits)
  qed
qed

lemma validJobReq_None_parts:
  assumes "validJobReq w req = None"
  obtains j m where "Job req = Some j" and "Metadata j = Some m"
  using assms by (auto simp: validJobReq_def split: option.splits if_splits)

lemma first_failure_split:
  "first_failure w P s req =
     (case find (\<lambda>chk. \<not> holds w P s req chk) request_checks of
        Some chk \<Rightarrow> Some chk
      | None \<Rightarrow> find (\<lambda>chk. \<not> holds w P s req chk) [NameRegistered, ParametersValid])"
proof -
  have e: "normative_order = request_checks @ [NameRegistered, ParametersValid]"
    by (simp add: normative_order_def request_checks_def)
  show ?thesis
    by (simp only: first_failure_def e find_app)
qed

lemma LaunchJob_invalid:
  "validJobReq w req = Some e \<Longrightarrow> LaunchJob w P req s = Returns ((emptyJobStats, Some e), s, [])"
  by (simp add: LaunchJob_def)

lemma dispatch_call:
  "\<exists>call r s1. dispatch P j m s = (call, r, s1) \<and> is_enqueue call"
  by (cases "Schedule P (Name j) (Parameters j) (ScheduleDelay m) (IsUnique m) s";
      cases "PeriodicallyEnqueue P (Name j) (Parameters j) (Cron m) s";
      cases "Enqueue P (Name j) (Parameters j) (IsUnique m) s")
     (simp add: dispatch_def is_enqueue_def)

lemma LaunchJob_valid:
  assumes v: "validJobReq w req = None" and j: "Job req = Some j" and m: "Metadata j = Some m"
  shows "LaunchJob w P req s =
     (if \<not> snd (IsKnownJob P (Name j) s)
      then Returns ((emptyJobStats, Some (JobUnknown (Name j))), s, [])
      else case ValidateJobParameters P (fst (IsKnownJob P (Name j) s)) (Parameters j) s of
             Some err \<Rightarrow> Returns ((emptyJobStats, Some err), s, [])
           | None \<Rightarrow>
              (case dispatch P j m s of
                 (call, (res, err), s1) \<Rightarrow>
                   if err = None \<and> \<not> IsEmptyStr w (StatusHook j) then
                     (case RegisterHook P (JobID (Stats res)) (StatusHook j) s1 of
                        (herr, s2) \<Rightarrow>
                          Returns
                            ((res\<lparr>Stats := (Stats res)\<lparr>HookStatus :=
                                 if herr = None then hookActivated else hookDeactivated\<rparr>\<rparr>, None),
                             s2, [call, RegisterHookCall (JobID (Stats res)) (StatusHook j)]))
                   else Returns ((res, err), s1, [call])))"
proof -
  obtain t k where ik: "IsKnownJob P (Name j) s = (t, k)"
    by (cases "IsKnownJob P (Name j) s")
  obtain call res err s1 where d: "dispatch P j m s = (call, (res, err), s1)"
    by (cases "dispatch P j m s") auto
  obtain herr s2 where h: "RegisterHook P (JobID (Stats res)) (StatusHook j) s1 = (herr, s2)"
    by (cases "RegisterHook P (JobID (Stats res)) (StatusHook j) s1")
  show ?thesis
    using v j m ik d h
    by (cases herr; cases "ValidateJobParameters P t (Parameters j) s") (simp_all add: LaunchJob_def)
qed

lemma first_failure_answer:
  assumes "first_failure w P s req = Some chk"
  shows "LaunchJob w P req s = Returns ((emptyJobStats, Some (failure w P s req chk)), s, [])"
proof (cases "validJobReq w req")
  case (Some e)
  with assms have "e = failure w P s req chk"
    by (auto simp: validJobReq_first_failure [of w req P s] first_failure_split split: option.splits)
  with Some show ?thesis by (simp add: LaunchJob_invalid)
next
  case None
  then obtain j m where j: "Job req = Some j" and m: "Metadata j = Some m"
    by (rule validJobReq_None_parts)
  from None have "find (\<lambda>chk. \<not> holds w P s req chk) request_checks = None"
    by (simp add: validJobReq_first_failure [of w req P s])
  with assms have "find (\<lambda>chk. \<not> holds w P s req chk) [NameRegistered, ParametersValid] = Some chk"
    by (simp add: first_failure_split)
  then have f: "(if \<not> holds w P s req NameRegistered then Some NameRegistered
                 else if \<not> holds w P s req ParametersValid then Some ParametersValid else None) = Some chk"
    by (simp only: find_two)
  show ?thesis
  proof (cases "snd (IsKnownJob P (Name j) s)")
    case False
    with f j have "chk = NameRegistered" by simp
    with False j show ?thesis by (simp add: LaunchJob_valid [OF None j m])
  next
    case True
    with f j have c: "chk = ParametersValid"
      and "ValidateJobParameters P (fst (IsKnownJob P (Name j) s)) (Parameters j) s \<noteq> None"
      by (simp_all split: if_splits)
    then obtain e where
      "ValidateJobParameters P (fst (IsKnownJob P (Name j) s)) (Parameters j) s = Some e"
      by auto
    with True c j show ?thesis by (simp add: LaunchJob_valid [OF None j m])
  qed
qed

lemma no_failure_dispatches:
  assumes "first_failure w P s req = None"
  shows "\<exists>out s' call calls. LaunchJob w P req s = Returns (out, s', call # calls) \<and> is_enqueue call"
proof -
  have r: "find (\<lambda>chk. \<not> holds w P s req chk) request_checks = None"
    using assms unfolding first_failure_split
    by (cases "find (\<lambda>chk. \<not> holds w P s req chk) request_checks") simp_all
  have p: "find (\<lambda>chk. \<not> holds w P s req chk) [NameRegistered, ParametersValid] = None"
    using assms unfolding first_failure_split r by (simp only: option.case)
  from r have v: "validJobReq w req = None"
    by (simp add: validJobReq_first_failure [of w req P s])
  then obtain j m where j: "Job req = Some j" and m: "Metadata j = Some m"
    by (rule validJobReq_None_parts)
  obtain call r s1 where d: "dispatch P j m s = (call, r, s1)" and e: "is_enqueue call"
    using dispatch_call [of P j m s] by blast
  from p have p': "(if \<not> holds w P s req NameRegistered then Some NameRegistered
                 else if \<not> holds w P s req ParametersValid then Some ParametersValid else None) = None"
    by (simp only: find_two)
  from p' j have k: "snd (IsKnownJob P (Name j) s)"
    by (simp split: if_splits)
  from p' j k have pv: "ValidateJobParameters P (fst (IsKnownJob P (Name j) s)) (Parameters j) s = None"
    by (simp split: if_splits)
  obtain res err where r: "r = (res, err)" by (cases r)
  obtain herr s2 where h: "RegisterHook P (JobID (Stats res)) (StatusHook j) s1 = (herr, s2)"
    by (cases "RegisterHook P (JobID (Stats res)) (StatusHook j) s1")
  from k pv d e r h show ?thesis
    by (simp add: LaunchJob_valid [OF v j m])
qed

text \<open>
  C1. \<open>LaunchJob\<close> validates in the normative order: the job, its name and its metadata,
  then the kind, then the delay of a scheduled job and the cron expression of a periodic
  one, then that the name is registered, and last the parameters. A request that fails
  some check is answered with the error of the first check it fails in this order,
  whatever later checks it fails too, together with empty statistics; the backend is left
  as it was and no call that changes it is made. A request that fails no check reaches
  the dispatch, whose first call is one of the three enqueue operations.
\<close>

theorem LaunchJob_validation_order:
  "(first_failure w P s req = Some chk \<longrightarrow>
      LaunchJob w P req s = Returns ((emptyJobStats, Some (failure w P s req chk)), s, []))
   \<and> (first_failure w P s req = None \<longrightarrow>
      (\<exists>out s' call calls.
         LaunchJob w P req s = Returns (out, s', call # calls) \<and> is_enqueue call))"
  using first_failure_answer [of w P s req chk] no_failure_dispatches [of w P s req]
  by blast

theorem LaunchJob_validation_order_witness:
  "LaunchJob demo_world demo_pool (demo_request ''nope'' ''Bogus'' 0 []) 7
     = Returns ((emptyJobStats, Some (JobKindNotSupported ''Bogus'')), 7, [])
   \<and> (\<exists>out s' call calls.
         LaunchJob demo_world demo_pool (demo_request ''demo'' ''Generic'' 0 []) 7
           = Returns (out, s', call # calls) \<and> is_enqueue call)"
proof -
  have bad: "first_failure demo_world demo_pool (7::nat) (demo_request ''nope'' ''Bogus'' 0 [])
               = Some KindSupported"
    by (simp add: first_failure_def normative_order_def demo_request_def demo_world_def
          metadata_of_def TrimSpace_def isSpace_def isSpace2_def isSpace3_def JobKindGeneric_def JobKindScheduled_def
          JobKindPeriodic_def)
  have good: "first_failure demo_world demo_pool (7::nat) (demo_request ''demo'' ''Generic'' 0 [])
               = None"
    by (simp add: first_failure_def normative_order_def demo_request_def demo_world_def
          demo_pool_def metadata_of_def TrimSpace_def isSpace_def isSpace2_def isSpace3_def JobKindGeneric_def
          JobKindScheduled_def JobKindPeriodic_def)
  show ?thesis
    using bad good
      LaunchJob_validation_order [of demo_world demo_pool 7
         "demo_request ''nope'' ''Bogus'' 0 []" KindSupported]
      LaunchJob_validation_order [of demo_world demo_pool 7
         "demo_request ''demo'' ''Generic'' 0 []" KindSupported]
    by (simp add: metadata_of_def demo_request_def)
qed

text \<open>
  C2. When the request passes validation, the enqueue of the dispatch returns no error
  and the status hook of the request is not empty, \<open>LaunchJob\<close> calls
  \<open>RegisterHook\<close> with the identifier of the enqueued job and the hook, right after
  the enqueue. The statistics it returns are those of the enqueue with the hook status
  set to \<open>activated\<close> when the registration returns no error and to \<open>error\<close> when
  it returns one; in both cases the error \<open>LaunchJob\<close> returns is nil.
\<close>

theorem LaunchJob_hook_status:
  assumes "validJobReq w req = None" and "Job req = Some j" and "Metadata j = Some m"
    and "IsKnownJob P (Name j) s = (t, True)"
    and "ValidateJobParameters P t (Parameters j) s = None"
    and "dispatch P j m s = (call, (res, None), s1)"
    and "\<not> IsEmptyStr w (StatusHook j)"
    and "RegisterHook P (JobID (Stats res)) (StatusHook j) s1 = (herr, s2)"
  shows "LaunchJob w P req s =
           Returns
             ((res\<lparr>Stats := (Stats res)\<lparr>HookStatus :=
                  if herr = None then hookActivated else hookDeactivated\<rparr>\<rparr>, None),
              s2, [call, RegisterHookCall (JobID (Stats res)) (StatusHook j)])"
  using assms(4-8) by (simp add: LaunchJob_valid [OF assms(1-3)])

theorem LaunchJob_hook_status_witness:
  "LaunchJob demo_world demo_pool (demo_request ''demo'' ''Generic'' 0 ''http://up'') 7
     = Returns
         (((demo_stats ''demo'' ''Generic'' False)
             \<lparr>Stats := (Stats (demo_stats ''demo'' ''Generic'' False))\<lparr>HookStatus := ''activated''\<rparr>\<rparr>, None),
          8, [EnqueueCall ''demo'' [(''image'', ''demo-x'')] False,
              RegisterHookCall ''id-demo'' ''http://up''])
   \<and> LaunchJob demo_world demo_pool (demo_request ''demo'' ''Scheduled'' 5 ''http://down'') 7
     = Returns
         (((demo_stats ''demo'' ''Scheduled'' False)
             \<lparr>Stats := (Stats (demo_stats ''demo'' ''Scheduled'' False))\<lparr>HookStatus := ''error''\<rparr>\<rparr>, None),
          8, [ScheduleCall ''demo'' [(''image'', ''demo-x'')] 5 False,
              RegisterHookCall ''id-demo'' ''http://down''])"
proof -
  let ?j1 = "\<lparr>Name = ''demo'', Parameters = [(''image'', ''demo-x'')],
        Metadata = Some \<lparr>JobKind = ''Generic'', ScheduleDelay = 0, Cron = [], IsUnique = False\<rparr>,
        StatusHook = ''http://up''\<rparr>"
  let ?m1 = "\<lparr>JobKind = ''Generic'', ScheduleDelay = 0::64 word, Cron = [], IsUnique = False\<rparr>"
  let ?j2 = "\<lparr>Name = ''demo'', Parameters = [(''image'', ''demo-x'')],
        Metadata = Some \<lparr>JobKind = ''Scheduled'', ScheduleDelay = 5, Cron = [], IsUnique = False\<rparr>,
        StatusHook = ''http://down''\<rparr>"
  let ?m2 = "\<lparr>JobKind = ''Scheduled'', ScheduleDelay = 5::64 word, Cron = [], IsUnique = False\<rparr>"
  have a: "LaunchJob demo_world demo_pool (demo_request ''demo'' ''Generic'' 0 ''http://up'') 7
     = Returns
         (((demo_stats ''demo'' ''Generic'' False)
             \<lparr>Stats := (Stats (demo_stats ''demo'' ''Generic'' False))\<lparr>HookStatus := ''activated''\<rparr>\<rparr>, None),
          8, [EnqueueCall ''demo'' [(''image'', ''demo-x'')] False,
              RegisterHookCall ''id-demo'' ''http://up''])"
    using LaunchJob_hook_status [of demo_world "demo_request ''demo'' ''Generic'' 0 ''http://up''"
        ?j1 ?m1 demo_pool 7 "''demo''" "EnqueueCall ''demo'' [(''image'', ''demo-x'')] False"
        "demo_stats ''demo'' ''Generic'' False" 8 None 8]
    by (simp add: validJobReq_def demo_request_def demo_world_def demo_pool_def dispatch_def
          TrimSpace_def isSpace_def isSpace2_def isSpace3_def JobKindGeneric_def JobKindScheduled_def JobKindPeriodic_def
          hookActivated_def hookDeactivated_def demo_stats_def emptyJobStats_def)
  have b: "LaunchJob demo_world demo_pool (demo_request ''demo'' ''Scheduled'' 5 ''http://down'') 7
     = Returns
         (((demo_stats ''demo'' ''Scheduled'' False)
             \<lparr>Stats := (Stats (demo_stats ''demo'' ''Scheduled'' False))\<lparr>HookStatus := ''error''\<rparr>\<rparr>, None),
          8, [ScheduleCall ''demo'' [(''image'', ''demo-x'')] 5 False,
              RegisterHookCall ''id-demo'' ''http://down''])"
    using LaunchJob_hook_status [of demo_world "demo_request ''demo'' ''Scheduled'' 5 ''http://down''"
        ?j2 ?m2 demo_pool 7 "''demo''" "ScheduleCall ''demo'' [(''image'', ''demo-x'')] 5 False"
        "demo_stats ''demo'' ''Scheduled'' False" 8 "Some (Other ''hook store down'')" 8]
    by (simp add: validJobReq_def demo_request_def demo_world_def demo_pool_def dispatch_def
          TrimSpace_def isSpace_def isSpace2_def isSpace3_def JobKindGeneric_def JobKindScheduled_def JobKindPeriodic_def
          hookActivated_def hookDeactivated_def demo_stats_def emptyJobStats_def)
  from a b show ?thesis by (rule conjI)
qed

text \<open>
  C6. A request of kind \<open>Scheduled\<close> whose delay is zero fails validation:
  \<open>LaunchJob\<close> answers with the error of \<open>validJobReq\<close> (the missing name when the
  name is empty too, the missing delay otherwise) and empty statistics, and makes no call
  to the pool. Conversely a \<open>Scheduled\<close> request that passes validation, or for
  which \<open>LaunchJob\<close> makes any call to the pool, has a delay above zero.
\<close>

theorem Scheduled_zero_delay_rejected:
  assumes "Job req = Some j" and "Metadata j = Some m" and "JobKind m = JobKindScheduled"
  shows "(ScheduleDelay m = 0 \<longrightarrow>
            validJobReq w req
              = Some (if IsEmptyStr w (Name j) then JobNameMissing else ScheduleDelayMissing)
            \<and> LaunchJob w P req s
              = Returns ((emptyJobStats,
                   Some (if IsEmptyStr w (Name j) then JobNameMissing else ScheduleDelayMissing)),
                  s, []))
       \<and> (validJobReq w req = None \<longrightarrow> 0 < ScheduleDelay m)
       \<and> (\<forall>out s' call calls.
            LaunchJob w P req s = Returns (out, s', call # calls) \<longrightarrow> 0 < ScheduleDelay m)"
proof -
  have k: "JobKindScheduled \<noteq> JobKindGeneric" "JobKindScheduled \<noteq> JobKindPeriodic"
    by (simp_all add: JobKindGeneric_def JobKindScheduled_def JobKindPeriodic_def)
  have v: "validJobReq w req =
             (if IsEmptyStr w (Name j) then Some JobNameMissing
              else if ScheduleDelay m = 0 then Some ScheduleDelayMissing else None)"
    using assms k by (simp add: validJobReq_def)
  have z: "ScheduleDelay m = 0 \<Longrightarrow>
             validJobReq w req
               = Some (if IsEmptyStr w (Name j) then JobNameMissing else ScheduleDelayMissing)"
    by (simp add: v)
  have p: "validJobReq w req = None \<Longrightarrow> 0 < ScheduleDelay m"
    by (simp add: v word_neq_0_conv split: if_splits)
  have d: "LaunchJob w P req s = Returns (out, s', call # calls) \<Longrightarrow> 0 < ScheduleDelay m"
    for out s' call calls
  proof (cases "validJobReq w req")
    case None
    then show ?thesis by (rule p)
  next
    case (Some e)
    assume "LaunchJob w P req s = Returns (out, s', call # calls)"
    with Some show ?thesis by (simp add: LaunchJob_invalid)
  qed
  from z p d show ?thesis
    by (auto simp: LaunchJob_invalid)
qed

theorem Scheduled_zero_delay_rejected_witness:
  "LaunchJob demo_world demo_pool (demo_request ''demo'' ''Scheduled'' 0 []) 7
     = Returns ((emptyJobStats, Some ScheduleDelayMissing), 7, [])
   \<and> validJobReq demo_world (demo_request ''demo'' ''Scheduled'' 3 []) = None"
proof -
  let ?j = "\<lparr>Name = ''demo'', Parameters = [(''image'', ''demo-x'')],
        Metadata = Some \<lparr>JobKind = ''Scheduled'', ScheduleDelay = 0, Cron = [], IsUnique = False\<rparr>,
        StatusHook = []\<rparr>"
  let ?m = "\<lparr>JobKind = ''Scheduled'', ScheduleDelay = 0::64 word, Cron = [], IsUnique = False\<rparr>"
  have "LaunchJob demo_world demo_pool (demo_request ''demo'' ''Scheduled'' 0 []) 7
     = Returns ((emptyJobStats, Some ScheduleDelayMissing), 7, [])"
    using Scheduled_zero_delay_rejected [of "demo_request ''demo'' ''Scheduled'' 0 []" ?j ?m
        demo_world demo_pool 7]
    by (simp add: demo_request_def demo_world_def TrimSpace_def isSpace_def isSpace2_def isSpace3_def JobKindScheduled_def)
  moreover have "validJobReq demo_world (demo_request ''demo'' ''Scheduled'' 3 []) = None"
    by (simp add: validJobReq_def demo_request_def demo_world_def TrimSpace_def isSpace_def isSpace2_def isSpace3_def
          JobKindGeneric_def JobKindScheduled_def JobKindPeriodic_def)
  ultimately show ?thesis by (rule conjI)
qed

subsection \<open>Loading the configuration\<close>

paragraph \<open>What each step of a load does to each field\<close>

lemma decode_doc_sel [simp]:
  "Protocol (decode_doc d c) = yaml_scalar (y_protocol d) (Protocol c)"
  "Port (decode_doc d c) = yaml_scalar (y_port d) (Port c)"
  "HTTPSConfig (decode_doc d c)
     = yaml_pointer decode_https zeroHTTPSConfig (y_https_config d) (HTTPSConfig c)"
  "PoolConfig (decode_doc d c)
     = yaml_pointer decode_worker_pool zeroPoolConfig (y_worker_pool d) (PoolConfig c)"
  "LoggerConfig (decode_doc d c)
     = yaml_pointer decode_logger zeroLoggerConfig (y_logger d) (LoggerConfig c)"
  by (simp_all add: decode_doc_def)

lemma env_protocol_sel [simp]:
  "Protocol (env_protocol w c) =
     (if IsEmptyStr w (ReadEnv w jobServiceProtocol) then Protocol c
      else ReadEnv w jobServiceProtocol)"
  "Port (env_protocol w c) = Port c"
  "HTTPSConfig (env_protocol w c) = HTTPSConfig c"
  "PoolConfig (env_protocol w c) = PoolConfig c"
  "LoggerConfig (env_protocol w c) = LoggerConfig c"
  by (simp_all add: env_protocol_def Let_def)

lemma env_port_sel [simp]:
  "Protocol (env_port w c) = Protocol c"
  "Port (env_port w c) =
     (if IsEmptyStr w (ReadEnv w jobServicePort) then Port c
      else case strconv_Atoi w (ReadEnv w jobServicePort) of
             None \<Rightarrow> Port c | Some po \<Rightarrow> word_of_int po)"
  "HTTPSConfig (env_port w c) = HTTPSConfig c"
  "PoolConfig (env_port w c) = PoolConfig c"
  "LoggerConfig (env_port w c) = LoggerConfig c"
  by (simp_all add: env_port_def Let_def split: option.splits)

lemma env_cert_sel [simp]:
  "Protocol (env_cert w c) = Protocol c"
  "Port (env_cert w c) = Port c"
  "HTTPSConfig (env_cert w c) =
     (if IsEmptyStr w (ReadEnv w jobServiceHTTPCert) then HTTPSConfig c
      else Some (case HTTPSConfig c of
                   None \<Rightarrow> \<lparr>Cert = ReadEnv w jobServiceHTTPCert, Key = []\<rparr>
                 | Some h \<Rightarrow> h\<lparr>Cert := ReadEnv w jobServiceHTTPCert\<rparr>))"
  "PoolConfig (env_cert w c) = PoolConfig c"
  "LoggerConfig (env_cert w c) = LoggerConfig c"
  by (simp_all add: env_cert_def Let_def split: option.splits)

lemma env_certKey_sel [simp]:
  "Protocol (env_certKey w c) = Protocol c"
  "Port (env_certKey w c) = Port c"
  "HTTPSConfig (env_certKey w c) =
     (if IsEmptyStr w (ReadEnv w jobServiceHTTPKey) then HTTPSConfig c
      else Some (case HTTPSConfig c of
                   None \<Rightarrow> \<lparr>Cert = [], Key = ReadEnv w jobServiceHTTPKey\<rparr>
                 | Some h \<Rightarrow> h\<lparr>Key := ReadEnv w jobServiceHTTPKey\<rparr>))"
  "PoolConfig (env_certKey w c) = PoolConfig c"
  "LoggerConfig (env_certKey w c) = LoggerConfig c"
  by (simp_all add: env_certKey_def Let_def split: option.splits)

lemma env_https_sel [simp]:
  "Protocol (env_https w c) = Protocol c"
  "Port (env_https w c) = Port c"
  "HTTPSConfig (env_https w c) =
     (if Protocol c = JobServiceProtocolHTTPS
      then HTTPSConfig (env_certKey w (env_cert w c)) else HTTPSConfig c)"
  "PoolConfig (env_https w c) = PoolConfig c"
  "LoggerConfig (env_https w c) = LoggerConfig c"
  by (simp_all add: env_https_def)

lemma env_backend_sel [simp]:
  "Protocol (env_backend w c) = Protocol c"
  "Port (env_backend w c) = Port c"
  "HTTPSConfig (env_backend w c) = HTTPSConfig c"
  "PoolConfig (env_backend w c) =
     (if IsEmptyStr w (ReadEnv w jobServiceWorkerPoolBackend) then PoolConfig c
      else Some ((case PoolConfig c of None \<Rightarrow> zeroPoolConfig | Some p \<Rightarrow> p)
                   \<lparr>Backend := ReadEnv w jobServiceWorkerPoolBackend\<rparr>))"
  "LoggerConfig (env_backend w c) = LoggerConfig c"
  by (simp_all add: env_backend_def pool_or_new_def Let_def)

lemma env_workers_sel [simp]:
  "Protocol (env_workers w c) = Protocol c"
  "Port (env_workers w c) = Port c"
  "HTTPSConfig (env_workers w c) = HTTPSConfig c"
  "PoolConfig (env_workers w c) =
     (if IsEmptyStr w (ReadEnv w jobServiceWorkers) then PoolConfig c
      else case strconv_Atoi w (ReadEnv w jobServiceWorkers) of
             None \<Rightarrow> PoolConfig c
           | Some count \<Rightarrow>
               Some ((case PoolConfig c of None \<Rightarrow> zeroPoolConfig | Some p \<Rightarrow> p)
                       \<lparr>WorkerCount := word_of_int count\<rparr>))"
  "LoggerConfig (env_workers w c) = LoggerConfig c"
  by (simp_all add: env_workers_def pool_or_new_def Let_def split: option.splits)

lemma env_redis_sel [simp]:
  "Protocol (env_redis w c) = Protocol c"
  "Port (env_redis w c) = Port c"
  "HTTPSConfig (env_redis w c) = HTTPSConfig c"
  "PoolConfig (env_redis w c) =
     (case PoolConfig c of
        None \<Rightarrow> None
      | Some p \<Rightarrow>
          if Backend p = JobServicePoolBackendRedis
          then Some (env_redisNamespace w (env_redisURL w p)) else Some p)"
  "LoggerConfig (env_redis w c) = LoggerConfig c"
  by (simp_all add: env_redis_def split: option.splits)

lemma env_loggerPath_sel [simp]:
  "Protocol (env_loggerPath w c) = Protocol c"
  "Port (env_loggerPath w c) = Port c"
  "HTTPSConfig (env_loggerPath w c) = HTTPSConfig c"
  "PoolConfig (env_loggerPath w c) = PoolConfig c"
  "LoggerConfig (env_loggerPath w c) =
     (if IsEmptyStr w (ReadEnv w jobServiceLoggerBasePath) then LoggerConfig c
      else Some ((case LoggerConfig c of None \<Rightarrow> zeroLoggerConfig | Some l \<Rightarrow> l)
                   \<lparr>BasePath := ReadEnv w jobServiceLoggerBasePath\<rparr>))"
  by (simp_all add: env_loggerPath_def logger_or_new_def Let_def)

lemma env_loggerLevel_sel [simp]:
  "Protocol (env_loggerLevel w c) = Protocol c"
  "Port (env_loggerLevel w c) = Port c"
  "HTTPSConfig (env_loggerLevel w c) = HTTPSConfig c"
  "PoolConfig (env_loggerLevel w c) = PoolConfig c"
  "LoggerConfig (env_loggerLevel w c) =
     (if IsEmptyStr w (ReadEnv w jobServiceLoggerLevel) then LoggerConfig c
      else Some ((case LoggerConfig c of None \<Rightarrow> zeroLoggerConfig | Some l \<Rightarrow> l)
                   \<lparr>LogLevel := ReadEnv w jobServiceLoggerLevel\<rparr>))"
  by (simp_all add: env_loggerLevel_def logger_or_new_def Let_def)

lemma env_archivePeriod_sel [simp]:
  "Protocol (env_archivePeriod w c) = Protocol c"
  "Port (env_archivePeriod w c) = Port c"
  "HTTPSConfig (env_archivePeriod w c) = HTTPSConfig c"
  "PoolConfig (env_archivePeriod w c) = PoolConfig c"
  "LoggerConfig (env_archivePeriod w c) =
     (if IsEmptyStr w (ReadEnv w jobServiceLoggerArchivePeriod) then LoggerConfig c
      else case strconv_Atoi w (ReadEnv w jobServiceLoggerArchivePeriod) of
             None \<Rightarrow> LoggerConfig c
           | Some period \<Rightarrow>
               Some ((case LoggerConfig c of None \<Rightarrow> zeroLoggerConfig | Some l \<Rightarrow> l)
                   \<lparr>ArchivePeriod := word_of_int period\<rparr>))"
  by (simp_all add: env_archivePeriod_def logger_or_new_def Let_def split: option.splits)

lemma set_RedisURL_sel [simp]:
  "Protocol (set_RedisURL u c) = Protocol c"
  "Port (set_RedisURL u c) = Port c"
  "HTTPSConfig (set_RedisURL u c) = HTTPSConfig c"
  "LoggerConfig (set_RedisURL u c) = LoggerConfig c"
  by (simp_all add: set_RedisURL_def split: option.splits)

lemma translateRedisURL_eq:
  "translateRedisURL w c =
     (case PoolConfig c of
        None \<Rightarrow> c
      | Some p \<Rightarrow>
          (case RedisPoolCfg p of
             None \<Rightarrow> c
           | Some r \<Rightarrow> set_RedisURL (normalised_address w (RedisURL r)) c))"
proof (cases "PoolConfig c")
  case None
  then show ?thesis by (simp add: translateRedisURL_def)
next
  case p: (Some p)
  show ?thesis
  proof (cases "RedisPoolCfg p")
    case None
    with p show ?thesis by (simp add: translateRedisURL_def)
  next
    case (Some r)
    obtain u ok where "TranslateRedisAddress w (RedisURL r) = (u, ok)"
      by (cases "TranslateRedisAddress w (RedisURL r)")
    with p Some show ?thesis
      by (cases c; cases p)
         (auto simp: translateRedisURL_def normalised_address_def set_RedisURL_def Let_def
            split: option.splits)
  qed
qed

lemma translateRedisURL_sel [simp]:
  "Protocol (translateRedisURL w c) = Protocol c"
  "Port (translateRedisURL w c) = Port c"
  "HTTPSConfig (translateRedisURL w c) = HTTPSConfig c"
  "LoggerConfig (translateRedisURL w c) = LoggerConfig c"
  by (simp_all add: translateRedisURL_eq split: option.splits)

lemma translateRedisURL_PoolConfig:
  "PoolConfig (translateRedisURL w c) =
     (case PoolConfig c of
        None \<Rightarrow> None
      | Some p \<Rightarrow>
          (case RedisPoolCfg p of
             None \<Rightarrow> Some p
           | Some r \<Rightarrow>
               Some (p\<lparr>RedisPoolCfg := Some (r\<lparr>RedisURL := normalised_address w (RedisURL r)\<rparr>)\<rparr>)))"
  by (simp add: translateRedisURL_eq set_RedisURL_def split: option.splits)

lemma loadEnvs_sel:
  "Protocol (loadEnvs w c) = Protocol (env_protocol w c)"
  "Port (loadEnvs w c) = Port (env_port w c)"
  "HTTPSConfig (loadEnvs w c) = HTTPSConfig (env_https w (env_protocol w c))"
  "PoolConfig (loadEnvs w c) = PoolConfig (env_redis w (env_workers w (env_backend w c)))"
  "LoggerConfig (loadEnvs w c)
     = LoggerConfig (env_archivePeriod w (env_loggerLevel w (env_loggerPath w c)))"
  by (simp_all add: loadEnvs_def split: option.splits)


paragraph \<open>A second load finds every field as the first one left it\<close>

lemma yaml_scalar_fix: "yaml_scalar y (yaml_scalar y old) = yaml_scalar y old"
  by (simp add: yaml_scalar_def split: option.splits)

lemma Protocol_fix:
  assumes "Protocol c2 = Protocol (loadEnvs w (decode_doc d c))"
  shows "Protocol (loadEnvs w (decode_doc d c2)) = Protocol c2"
  using assms by (simp add: loadEnvs_sel yaml_scalar_def split: option.splits if_splits)

lemma Port_fix:
  assumes "Port c2 = Port (loadEnvs w (decode_doc d c))"
  shows "Port (loadEnvs w (decode_doc d c2)) = Port c2"
  using assms by (simp add: loadEnvs_sel yaml_scalar_def split: option.splits if_splits)

lemma LoggerConfig_fix:
  assumes "LoggerConfig c2 = LoggerConfig (loadEnvs w (decode_doc d c))"
  shows "LoggerConfig (loadEnvs w (decode_doc d c2)) = LoggerConfig c2"
  using assms
  by (cases "y_logger d"; cases "LoggerConfig c")
     (simp_all add: loadEnvs_sel yaml_pointer_def decode_logger_def yaml_scalar_def
        zeroLoggerConfig_def split: option.splits)

lemma HTTPSConfig_fix:
  assumes "Protocol c2 = Protocol (loadEnvs w (decode_doc d c))"
    and "HTTPSConfig c2 = HTTPSConfig (loadEnvs w (decode_doc d c))"
  shows "HTTPSConfig (loadEnvs w (decode_doc d c2)) = HTTPSConfig c2"
proof -
  have p: "Protocol (env_protocol w (decode_doc d c2)) = Protocol (env_protocol w (decode_doc d c))"
    using Protocol_fix [OF assms(1)] assms(1) by (simp add: loadEnvs_sel)
  show ?thesis
    using assms(2) p
    by (cases "y_https_config d"; cases "HTTPSConfig c";
        cases "Protocol (env_protocol w (decode_doc d c)) = JobServiceProtocolHTTPS")
       (simp_all add: loadEnvs_sel yaml_pointer_def decode_https_def yaml_scalar_def
          zeroHTTPSConfig_def split: option.splits)
qed



lemma env_redisURL_sel [simp]:
  "WorkerCount (env_redisURL w p) = WorkerCount p"
  "Backend (env_redisURL w p) = Backend p"
  "RedisPoolCfg (env_redisURL w p) =
     (if IsEmptyStr w (ReadEnv w jobServiceRedisURL) then RedisPoolCfg p
      else Some ((case RedisPoolCfg p of None \<Rightarrow> zeroRedisPoolConfig | Some r \<Rightarrow> r)
                   \<lparr>RedisURL := ReadEnv w jobServiceRedisURL\<rparr>))"
  by (simp_all add: env_redisURL_def redis_or_new_def Let_def)

lemma env_redisNamespace_sel [simp]:
  "WorkerCount (env_redisNamespace w p) = WorkerCount p"
  "Backend (env_redisNamespace w p) = Backend p"
  "RedisPoolCfg (env_redisNamespace w p) =
     (if IsEmptyStr w (ReadEnv w jobServiceRedisNamespace) then RedisPoolCfg p
      else Some ((case RedisPoolCfg p of None \<Rightarrow> zeroRedisPoolConfig | Some r \<Rightarrow> r)
                   \<lparr>Namespace := ReadEnv w jobServiceRedisNamespace\<rparr>))"
  by (simp_all add: env_redisNamespace_def redis_or_new_def Let_def)

lemma decode_worker_pool_sel [simp]:
  "WorkerCount (decode_worker_pool d p) = yaml_scalar (y_workers d) (WorkerCount p)"
  "Backend (decode_worker_pool d p) = yaml_scalar (y_backend d) (Backend p)"
  "RedisPoolCfg (decode_worker_pool d p)
     = yaml_pointer decode_redis_pool zeroRedisPoolConfig (y_redis_pool d) (RedisPoolCfg p)"
  by (simp_all add: decode_worker_pool_def)

lemma pool_scalars_fix:
  assumes "PoolConfig (loadEnvs w (decode_doc d c)) = Some p4"
    and "PoolConfig c2 = Some p2"
    and "WorkerCount p2 = WorkerCount p4" and "Backend p2 = Backend p4"
  shows "\<exists>p. PoolConfig (loadEnvs w (decode_doc d c2)) = Some p
           \<and> WorkerCount p = WorkerCount p4 \<and> Backend p = Backend p4"
  using assms
  by (cases "y_worker_pool d"; cases "PoolConfig c";
      cases "IsEmptyStr w (ReadEnv w jobServiceWorkerPoolBackend)";
      cases "IsEmptyStr w (ReadEnv w jobServiceWorkers)";
      cases "strconv_Atoi w (ReadEnv w jobServiceWorkers)")
     (auto simp: loadEnvs_sel yaml_pointer_def yaml_scalar_def zeroPoolConfig_def
        split: option.splits if_splits)


lemma redis_after_envs:
  assumes "PoolConfig (loadEnvs w c) = Some p" and "Backend p = JobServicePoolBackendRedis"
  shows "RedisPoolCfg p = RedisPoolCfg (env_redisNamespace w (env_redisURL w (pool_or_new c)))"
  using assms
  by (cases "PoolConfig c";
      cases "IsEmptyStr w (ReadEnv w jobServiceWorkerPoolBackend)";
      cases "IsEmptyStr w (ReadEnv w jobServiceWorkers)";
      cases "strconv_Atoi w (ReadEnv w jobServiceWorkers)")
     (auto simp: loadEnvs_sel pool_or_new_def zeroPoolConfig_def split: if_splits)

lemma redis_after_decode:
  "RedisPoolCfg (pool_or_new (decode_doc d c)) =
     yaml_pointer decode_redis_pool zeroRedisPoolConfig
       (case y_worker_pool d of YAbsent \<Rightarrow> YAbsent | YNull \<Rightarrow> YNull | YMapping dp \<Rightarrow> y_redis_pool dp)
       (RedisPoolCfg (pool_or_new c))"
  by (cases "y_worker_pool d"; cases "PoolConfig c")
     (simp_all add: pool_or_new_def yaml_pointer_def zeroPoolConfig_def)

lemma redis_kept_or_overwritten:
  assumes "RedisPoolCfg (env_redisNamespace w (env_redisURL w pa)) = Some r4"
    and "RedisPoolCfg pa = yaml_pointer decode_redis_pool zeroRedisPoolConfig yr rp0"
    and "RedisPoolCfg pb
           = yaml_pointer decode_redis_pool zeroRedisPoolConfig yr (Some (r4\<lparr>RedisURL := u\<rparr>))"
  shows "RedisPoolCfg (env_redisNamespace w (env_redisURL w pb)) = Some r4
       \<or> RedisPoolCfg (env_redisNamespace w (env_redisURL w pb)) = Some (r4\<lparr>RedisURL := u\<rparr>)"
  using assms
  by (cases yr; cases rp0;
      cases "IsEmptyStr w (ReadEnv w jobServiceRedisURL)";
      cases "IsEmptyStr w (ReadEnv w jobServiceRedisNamespace)")
     (auto simp: yaml_pointer_def decode_redis_pool_def yaml_scalar_def zeroRedisPoolConfig_def
        split: option.splits)

lemma pool_fix:
  assumes p4: "PoolConfig (loadEnvs w (decode_doc d c)) = Some p4"
    and b4: "Backend p4 = JobServicePoolBackendRedis"
    and r4: "RedisPoolCfg p4 = Some r4"
    and c2: "PoolConfig c2 = Some (p4\<lparr>RedisPoolCfg := Some (r4\<lparr>RedisURL := u\<rparr>)\<rparr>)"
  shows "PoolConfig (loadEnvs w (decode_doc d c2)) = Some p4
       \<or> PoolConfig (loadEnvs w (decode_doc d c2))
           = Some (p4\<lparr>RedisPoolCfg := Some (r4\<lparr>RedisURL := u\<rparr>)\<rparr>)"
proof -
  let ?p2 = "p4\<lparr>RedisPoolCfg := Some (r4\<lparr>RedisURL := u\<rparr>)\<rparr>"
  obtain p where p: "PoolConfig (loadEnvs w (decode_doc d c2)) = Some p"
    and wc: "WorkerCount p = WorkerCount p4" and bk: "Backend p = Backend p4"
    using pool_scalars_fix [OF p4 c2] by auto
  have a: "RedisPoolCfg (env_redisNamespace w (env_redisURL w (pool_or_new (decode_doc d c)))) = Some r4"
    using redis_after_envs [OF p4 b4] r4 by simp
  have b: "RedisPoolCfg p
             = RedisPoolCfg (env_redisNamespace w (env_redisURL w (pool_or_new (decode_doc d c2))))"
    using redis_after_envs [OF p] bk b4 by simp
  have "RedisPoolCfg (pool_or_new c2) = Some (r4\<lparr>RedisURL := u\<rparr>)"
    using c2 by (simp add: pool_or_new_def)
  then have "RedisPoolCfg (pool_or_new (decode_doc d c2)) =
     yaml_pointer decode_redis_pool zeroRedisPoolConfig
       (case y_worker_pool d of YAbsent \<Rightarrow> YAbsent | YNull \<Rightarrow> YNull | YMapping dp \<Rightarrow> y_redis_pool dp)
       (Some (r4\<lparr>RedisURL := u\<rparr>))"
    by (simp only: redis_after_decode)
  from redis_kept_or_overwritten [OF a redis_after_decode this]
  have "RedisPoolCfg p = Some r4 \<or> RedisPoolCfg p = Some (r4\<lparr>RedisURL := u\<rparr>)"
    by (simp only: b)
  then show ?thesis
  proof
    assume "RedisPoolCfg p = Some r4"
    with wc bk r4 have "p = p4" by (cases p; cases p4) simp
    with p show ?thesis by simp
  next
    assume "RedisPoolCfg p = Some (r4\<lparr>RedisURL := u\<rparr>)"
    with wc bk have "p = ?p2" by (cases p; cases p4) simp
    with p show ?thesis by simp
  qed
qed


lemma validate_ok_redis:
  assumes "validate w c = None"
  shows "\<exists>p r. PoolConfig c = Some p \<and> Backend p = JobServicePoolBackendRedis
           \<and> RedisPoolCfg p = Some r \<and> \<not> IsEmptyStr w (RedisURL r)
           \<and> HasPrefix (RedisURL r) redisSchema \<and> url_Parse w (RedisURL r) = None"
proof -
  from assms obtain p where p: "PoolConfig c = Some p"
    and b: "Backend p = JobServicePoolBackendRedis" and v: "validate_redis w p = None"
    by (auto simp: validate_def split: if_splits option.splits)
  from v b obtain r where "RedisPoolCfg p = Some r" "\<not> IsEmptyStr w (RedisURL r)"
    "HasPrefix (RedisURL r) redisSchema" "url_Parse w (RedisURL r) = None"
    by (auto simp: validate_redis_def split: if_splits option.splits)
  with p b show ?thesis by blast
qed

lemma normalised_address_valid:
  assumes "\<not> IsEmptyStr w a" and "HasPrefix a redisSchema" and "url_Parse w a = None"
  shows "normalised_address w a = a"
  using assms by (simp add: normalised_address_def)

lemma load_fixpoint:
  assumes v: "validate w (translateRedisURL w (loadEnvs we (decode_doc d c))) = None"
  shows "translateRedisURL w (loadEnvs we (decode_doc d
           (translateRedisURL w (loadEnvs we (decode_doc d c)))))
         = translateRedisURL w (loadEnvs we (decode_doc d c))"
proof -
  let ?X = "loadEnvs we (decode_doc d c)"
  let ?c1 = "translateRedisURL w ?X"
  let ?X1 = "loadEnvs we (decode_doc d ?c1)"
  from validate_ok_redis [OF v] obtain p5 r5 where
    p5: "PoolConfig ?c1 = Some p5" and b5: "Backend p5 = JobServicePoolBackendRedis"
    and r5: "RedisPoolCfg p5 = Some r5" and u5: "\<not> IsEmptyStr w (RedisURL r5)"
    "HasPrefix (RedisURL r5) redisSchema" "url_Parse w (RedisURL r5) = None"
    by blast
  from p5 r5 obtain p4 r4 where p4: "PoolConfig ?X = Some p4" and r4: "RedisPoolCfg p4 = Some r4"
    and e5: "p5 = p4\<lparr>RedisPoolCfg := Some (r4\<lparr>RedisURL := normalised_address w (RedisURL r4)\<rparr>)\<rparr>"
    by (auto simp: translateRedisURL_PoolConfig split: option.splits)
  from e5 b5 have b4: "Backend p4 = JobServicePoolBackendRedis" by simp
  from e5 r5 have e5r: "r5 = r4\<lparr>RedisURL := normalised_address w (RedisURL r4)\<rparr>" by simp
  have n5: "normalised_address w (RedisURL r5) = RedisURL r5"
    using u5 by (rule normalised_address_valid)
  from p5 e5 have c2: "PoolConfig ?c1
      = Some (p4\<lparr>RedisPoolCfg := Some (r4\<lparr>RedisURL := normalised_address w (RedisURL r4)\<rparr>)\<rparr>)"
    by simp
  have pool: "PoolConfig (translateRedisURL w ?X1) = PoolConfig ?c1"
    using pool_fix [OF p4 b4 r4 c2]
  proof
    assume "PoolConfig ?X1 = Some p4"
    then have "PoolConfig (translateRedisURL w ?X1) = Some p5"
      using r4 e5 by (simp add: translateRedisURL_PoolConfig)
    with p5 show ?thesis by simp
  next
    assume "PoolConfig ?X1
      = Some (p4\<lparr>RedisPoolCfg := Some (r4\<lparr>RedisURL := normalised_address w (RedisURL r4)\<rparr>)\<rparr>)"
    then have x1: "PoolConfig ?X1 = Some p5" using e5 by simp
    have "PoolConfig (translateRedisURL w ?X1) = Some p5"
      using r5 n5 by (simp add: translateRedisURL_PoolConfig x1)
    with p5 show ?thesis by simp
  qed
  have prot: "Protocol ?X1 = Protocol ?c1"
    by (rule Protocol_fix [of _ we d c]) simp
  have port: "Port ?X1 = Port ?c1"
    by (rule Port_fix [of _ we d c]) simp
  have https: "HTTPSConfig ?X1 = HTTPSConfig ?c1"
    by (rule HTTPSConfig_fix [of _ we d c]) simp_all
  have lg: "LoggerConfig ?X1 = LoggerConfig ?c1"
    by (rule LoggerConfig_fix [of _ we d c]) simp
  show ?thesis
    by (rule Configuration.equality) (simp_all add: pool prot port https lg)
qed

lemma decode_empty_doc: "decode_doc empty_doc c = c"
  by (simp add: decode_doc_def empty_doc_def yaml_scalar_def yaml_pointer_def)

lemma loadEnvs_no_env:
  assumes "\<And>a. IsEmptyStr we a"
  shows "loadEnvs we c = c"
  using assms
  by (cases "PoolConfig c")
     (simp_all add: loadEnvs_def env_protocol_def env_port_def env_https_def env_cert_def
        env_certKey_def env_backend_def env_workers_def env_redis_def env_redisURL_def
        env_redisNamespace_def env_loggerPath_def env_loggerLevel_def env_archivePeriod_def)

lemma Load_runs:
  assumes "Load w yamlFilePath detectEnv c = (None, c1)"
  shows "\<exists>d we. \<forall>c'. Load w yamlFilePath detectEnv c' =
           (validate w (translateRedisURL w (loadEnvs we (decode_doc d c'))),
            translateRedisURL w (loadEnvs we (decode_doc d c')))"
proof -
  obtain we where we: "\<And>c'. (if detectEnv then loadEnvs w c' else c') = loadEnvs we c'"
  proof (cases detectEnv)
    case True
    then show ?thesis using that [of w] by simp
  next
    case False
    then show ?thesis
      using that [of "w\<lparr>IsEmptyStr := \<lambda>_. True\<rparr>"] by (simp add: loadEnvs_no_env)
  qed
  show ?thesis
  proof (cases "IsEmptyStr w yamlFilePath")
    case True
    then have "\<forall>c'. Load w yamlFilePath detectEnv c' =
           (validate w (translateRedisURL w (loadEnvs we (decode_doc empty_doc c'))),
            translateRedisURL w (loadEnvs we (decode_doc empty_doc c')))"
      by (simp add: Load_def Let_def we decode_empty_doc)
    then show ?thesis by blast
  next
    case False
    with assms obtain data where rf: "ReadFile w yamlFilePath = Inr data"
      by (cases "ReadFile w yamlFilePath") (simp_all add: Load_def)
    obtain err d where yd: "yaml_Decode w data = (err, d)"
      by (cases "yaml_Decode w data")
    with assms False rf have "err = None"
      by (cases err) (simp_all add: Load_def yaml_Unmarshal_def)
    with False rf yd have "\<forall>c'. Load w yamlFilePath detectEnv c' =
           (validate w (translateRedisURL w (loadEnvs we (decode_doc d c'))),
            translateRedisURL w (loadEnvs we (decode_doc d c')))"
      by (simp add: Load_def Let_def we yaml_Unmarshal_def)
    then show ?thesis by blast
  qed
qed








text \<open>
  C8. Loading is idempotent: when \<open>Load\<close> returns nil on a configuration, with a file
  and an environment, \<open>Load\<close> called again on the struct it left, with the same file
  and environment, returns nil too and leaves every field of the struct as it was,
  the normalised redis URL included.
\<close>

theorem Load_idempotent:
  assumes "Load w yamlFilePath detectEnv c = (None, c1)"
  shows "Load w yamlFilePath detectEnv c1 = (None, c1)"
proof -
  from Load_runs [OF assms] obtain d we where
    run: "\<And>c'. Load w yamlFilePath detectEnv c' =
           (validate w (translateRedisURL w (loadEnvs we (decode_doc d c'))),
            translateRedisURL w (loadEnvs we (decode_doc d c')))"
    by blast
  have "(validate w (translateRedisURL w (loadEnvs we (decode_doc d c))),
         translateRedisURL w (loadEnvs we (decode_doc d c))) = (None, c1)"
    using assms by (simp only: run [of c])
  then have v: "validate w (translateRedisURL w (loadEnvs we (decode_doc d c))) = None"
    and e: "c1 = translateRedisURL w (loadEnvs we (decode_doc d c))"
    by blast+
  from load_fixpoint [OF v] have "translateRedisURL w (loadEnvs we (decode_doc d c1)) = c1"
    by (simp only: e [symmetric])
  moreover from v have "validate w c1 = None"
    by (simp only: e [symmetric])
  ultimately show ?thesis
    by (simp only: run [of c1])
qed


theorem Load_idempotent_witness:
  "Load demo_world ''/etc/job/config.yml'' True zeroConfiguration = (None, demo_config ''DEBUG'')
   \<and> Load demo_world ''/etc/job/config.yml'' True (demo_config ''DEBUG'')
       = (None, demo_config ''DEBUG'')"
proof -
  have first: "Load demo_world ''/etc/job/config.yml'' True zeroConfiguration
                 = (None, demo_config ''DEBUG'')"
    by (simp add: Load_def Let_def demo_world_def yaml_Unmarshal_def demo_doc_def
          zeroConfiguration_def demo_config_def decode_doc_def decode_worker_pool_def
          decode_redis_pool_def decode_logger_def yaml_pointer_def yaml_scalar_def
          zeroPoolConfig_def zeroRedisPoolConfig_def zeroLoggerConfig_def
          loadEnvs_def env_protocol_def env_port_def env_https_def env_backend_def
          env_workers_def env_redis_def env_redisURL_def env_redisNamespace_def
          env_loggerPath_def env_loggerLevel_def env_archivePeriod_def logger_or_new_def
          translateRedisURL_def set_RedisURL_def validate_def validate_https_def
          validate_redis_def validate_logger_def validLevels_def HasPrefix_def TrimSpace_def
          isSpace_def isSpace2_def isSpace3_def redisSchema_def jobServiceProtocol_def jobServicePort_def
          jobServiceWorkerPoolBackend_def jobServiceWorkers_def jobServiceRedisURL_def
          jobServiceRedisNamespace_def jobServiceLoggerBasePath_def jobServiceLoggerLevel_def
          jobServiceLoggerArchivePeriod_def JobServiceProtocolHTTPS_def
          JobServiceProtocolHTTP_def JobServicePoolBackendRedis_def)
  from first Load_idempotent [OF first] show ?thesis by (rule conjI)
qed

subsection \<open>The logger level\<close>

text \<open>
  C5. \<open>validate\<close> accepts a logger level that is none of \<open>DEBUG\<close>, \<open>INFO\<close>,
  \<open>WARNING\<close>, \<open>ERROR\<close>, \<open>FATAL\<close>: on the sample configuration, otherwise valid,
  it returns nil for the level \<open>WARN\<close> and for the empty level, because it tests
  whether the level occurs inside the comma-separated list of the five, not whether it
  is one of them. It does reject the level \<open>TRACE\<close>.
\<close>

theorem validate_accepts_substring_levels:
  "validate demo_world (demo_config ''WARN'') = None
   \<and> validate demo_world (demo_config []) = None
   \<and> validate demo_world (demo_config ''TRACE'') = Some (LoggerLevelInvalid validLevels)"
  by (simp add: validate_def validate_https_def validate_redis_def validate_logger_def
        demo_world_def demo_config_def validLevels_def HasPrefix_def TrimSpace_def isSpace_def isSpace2_def isSpace3_def
        redisSchema_def JobServiceProtocolHTTPS_def JobServiceProtocolHTTP_def
        JobServicePoolBackendRedis_def)

subsection \<open>Authentication\<close>

lemma DoAuth_accepts_iff:
  "DoAuth w req = None \<longleftrightarrow>
     (\<exists>r. req = Some r
        \<and> \<not> IsEmptyStr w (TrimSpace (Header_Get (Header r) authHeader))
        \<and> TrimSpace (Header_Get (Header r) authHeader) = ReadEnv w uiAuthSecret)"
  by (cases req) (simp_all add: DoAuth_def Let_def GetUIAuthSecret_def)

lemma DoAuth_trims_unicode_space:
  "DoAuth demo_world
     (Some \<lparr>Header = [''Authorization'' \<mapsto> [[CHR 0xC2, CHR 0xA0] @ ''s3cret'' @ ''  '']]\<rparr>)
     = None"
  by (simp add: DoAuth_def demo_world_def Header_Get_def authHeader_def GetUIAuthSecret_def
        uiAuthSecret_def TrimSpace_def isSpace_def isSpace2_def isSpace3_def)

text \<open>
  C3. \<open>DoAuth\<close> compares the whole trimmed value of the \<open>Authorization\<close> header with
  the secret of the environment, not the part after the scheme. With the secret
  \<open>s3cret\<close> in \<open>CORE_SECRET\<close>, the header \<open>Harbor-Secret s3cret\<close> of the README
  is refused as unauthorized, and the bare header \<open>s3cret\<close>, which carries no scheme,
  is accepted. A nil request and a request without the header are refused.
\<close>

theorem DoAuth_compares_whole_header:
  "DoAuth demo_world (Some \<lparr>Header = [''Authorization'' \<mapsto> [''Harbor-Secret s3cret'']]\<rparr>)
     = Some Unauthorized
   \<and> DoAuth demo_world (Some \<lparr>Header = [''Authorization'' \<mapsto> [''s3cret'']]\<rparr>) = None
   \<and> DoAuth demo_world None = Some NilRequest
   \<and> DoAuth demo_world (Some \<lparr>Header = Map.empty\<rparr>) = Some (HeaderMissing ''Authorization'')"
  by (simp add: DoAuth_def demo_world_def Header_Get_def authHeader_def GetUIAuthSecret_def
        uiAuthSecret_def TrimSpace_def isSpace_def isSpace2_def isSpace3_def)

subsection \<open>Building the execution context\<close>

lemma Build_without_nil_entries:
  assumes "ExtraData dep ''opCommandFunc'' \<noteq> Some NilInterface"
    and "ExtraData dep ''checkInFunc'' \<noteq> Some NilInterface"
  shows "Build w DefaultConfig c dep =
     (if jlogger_New w (GetLogBasePath DefaultConfig @ ''/'' @ ID dep @ ''.log'')
           (GetLogLevel DefaultConfig) = None
      then Returns (Inl LoggerInitFailed)
      else case ExtraData dep ''opCommandFunc'' of
             Some (OPCmdFuncValue (Some f)) \<Rightarrow>
               (case ExtraData dep ''checkInFunc'' of
                  Some (CheckInFuncValue (Some g)) \<Rightarrow>
                    Returns (Inr \<lparr>sysContext = sysContext c,
                       logger = jlogger_New w (GetLogBasePath DefaultConfig @ ''/'' @ ID dep @ ''.log'')
                                  (GetLogLevel DefaultConfig),
                       opCommandFunc = Some f, checkInFunc = Some g,
                       properties = properties c\<rparr>)
                | _ \<Rightarrow> Returns (Inl InjectCheckInFailed))
           | _ \<Rightarrow> Returns (Inl InjectOpCommandFailed))"
  using assms
  by (cases "ExtraData dep ''opCommandFunc''"; cases "ExtraData dep ''checkInFunc''")
     (auto simp: Build_def Let_def inject_opCommandFunc_def inject_checkInFunc_def
        reflect_Kind_is_Func_def assert_CheckOPCmdFunc_def assert_CheckInFunc_def
        split: iface.splits option.splits)

text \<open>
  C4. \<open>Build\<close> does not return an error for every job data that lacks a closure: when
  the logger initialises and the extra data holds the nil interface under
  \<open>opCommandFunc\<close>, or a good closure there and the nil interface under
  \<open>checkInFunc\<close>, \<open>Build\<close> panics with a nil dereference, in the call of
  \<open>Kind\<close> on the nil type that \<open>reflect.TypeOf\<close> returns.
\<close>

theorem Build_nil_entry_panics:
  "Build demo_world (demo_config ''INFO'') (NewContext (0::nat))
     \<lparr>ID = ''j1'', ExtraData = [''opCommandFunc'' \<mapsto> (NilInterface :: nat iface)]\<rparr>
     = Panics NilPointerDereference
   \<and> Build demo_world (demo_config ''INFO'') (NewContext (0::nat))
     \<lparr>ID = ''j1'', ExtraData = [''opCommandFunc'' \<mapsto> OPCmdFuncValue (Some (\<lambda>s::nat. (''stop'', True))),
                              ''checkInFunc'' \<mapsto> NilInterface]\<rparr>
     = Panics NilPointerDereference"
  by (simp add: Build_def NewContext_def demo_world_def demo_config_def GetLogBasePath_def
        GetLogLevel_def inject_opCommandFunc_def inject_checkInFunc_def
        reflect_Kind_is_Func_def assert_CheckOPCmdFunc_def)

subsection \<open>The job registry\<close>

text \<open>
  C9. The first \<open>Register\<close> of a job name stores the implementation under that name.
  Every later \<open>Register\<close> of the same name, with whatever implementation, panics with
  the duplicate-registration error, so the stored implementation is never overwritten.
\<close>

theorem Register_duplicate_panics:
  assumes "registerJobs jobName = None"
  shows "\<exists>m. Register jobName jobFunc registerJobs = Returns m
           \<and> m = registerJobs(jobName \<mapsto> jobFunc)
           \<and> m jobName = Some jobFunc
           \<and> (\<forall>other. Register jobName other m = Panics (DuplicateJobRegister jobName))"
  using assms by (simp add: Register_def)

theorem Register_duplicate_panics_witness:
  "Register ''demo'' (1::nat) Map.empty = Returns [''demo'' \<mapsto> 1]
     \<and> Register ''demo'' (2::nat) [''demo'' \<mapsto> 1] = Panics (DuplicateJobRegister ''demo'')"
  using Register_duplicate_panics [of Map.empty "''demo''" "1::nat"] by simp

subsection \<open>The execution context before injection\<close>

text \<open>
  C10. On a context whose closures were not injected, \<open>OPCommand\<close> returns the pair
  of the empty string and false, and \<open>Checkin\<close> returns the nil-check-in error and
  leaves the backend untouched; neither call panics. The template made by
  \<open>NewContext\<close> is such a context.
\<close>

theorem Context_nil_safe:
  "(opCommandFunc c = None \<longrightarrow> OPCommand c s = Returns ('''', False))
   \<and> (checkInFunc c = None \<longrightarrow> Checkin c status s = Returns (Some NilCheckInFunction, s))
   \<and> (\<forall>e. OPCommand c s \<noteq> Panics e)
   \<and> (\<forall>e. Checkin c status s \<noteq> Panics e)
   \<and> opCommandFunc (NewContext x :: ('x, 's) Context) = None
   \<and> checkInFunc (NewContext x :: ('x, 's) Context) = None"
  by (auto simp: OPCommand_def Checkin_def NewContext_def call_CheckOPCmdFunc_def
        call_CheckInFunc_def split: option.splits)

theorem Context_nil_safe_witness:
  "OPCommand (NewContext (0::nat)) (5::nat) = Returns ('''', False)
   \<and> Checkin (NewContext (0::nat)) ''30%'' (5::nat) = Returns (Some NilCheckInFunction, 5)"
  using Context_nil_safe [of "NewContext (0::nat)" "5::nat" "''30%''" "0::nat"]
  by (simp add: NewContext_def)

end
